theory Spec2Isabelle
  imports Main
begin

section \<open>JavaScript strings\<close>

text \<open>
  A string is the list of the bytes of its UTF-8 encoding, so a character outside
  ASCII is two or three bytes. \<open>str_includes s p\<close> is \<open>s.includes(p)\<close>: \<open>p\<close> occurs
  in \<open>s\<close> as a contiguous run (the empty string occurs everywhere).
\<close>

fun starts_with :: "string \<Rightarrow> string \<Rightarrow> bool" where
  "starts_with s [] = True"
| "starts_with [] (p # ps) = False"
| "starts_with (c # cs) (p # ps) = (c = p \<and> starts_with cs ps)"

fun str_includes :: "string \<Rightarrow> string \<Rightarrow> bool" where
  "str_includes [] p = (p = [])"
| "str_includes (c # cs) p = (starts_with (c # cs) p \<or> str_includes cs p)"

text \<open>\<open>xs.join(sep)\<close> on an array of strings.\<close>

fun join :: "string \<Rightarrow> string list \<Rightarrow> string" where
  "join sep [] = []"
| "join sep [x] = x"
| "join sep (x # y # ys) = x @ sep @ join sep (y # ys)"

section \<open>Errors and responses of the platform API\<close>

text \<open>
  One entry of a GraphQL error list: its \<open>message\<close> and, when present,
  \<open>extensions.code\<close>.
\<close>

record gql_error =
  err_message :: string
  ext_code :: "string option"

text \<open>
  \<open>error.response\<close> of a thrown error: the HTTP status (when there is one) and
  \<open>error.response.errors\<close> (an absent list is the empty list: \<open>errors[0]\<close> is
  \<open>undefined\<close> in both cases).
\<close>

record http_response =
  status :: "nat option"
  resp_errors :: "gql_error list"

text \<open>
  A thrown JavaScript error object: the fields the code reads. \<open>name\<close> is the standard
  \<open>Error.prototype.name\<close>; an object built by \<open>new Error(msg)\<close> has the name
  \<open>Error\<close>, the given message and no \<open>response\<close>.
\<close>

record js_error =
  name :: string
  message :: string
  response :: "http_response option"

definition new_Error :: "string \<Rightarrow> js_error" where
  "new_Error msg = \<lparr>name = ''Error'', message = msg, response = None\<rparr>"

text \<open>
  What \<open>monday.api\<close> resolves with: \<open>response.errors\<close> (\<open>None\<close> when the field is
  absent; an array, even an empty one, is truthy) and \<open>response.data\<close>.
\<close>

record 'a api_response =
  errors :: "gql_error list option"
  data :: 'a

datatype 'a api_outcome = Resolved "'a api_response" | Rejected js_error

text \<open>
  A network call reads and changes the outside world \<open>'w\<close>; an asynchronous operation
  is a function from the world to its outcome and the new world. The executors also
  return what they did: \<open>Call\<close> for one invocation of the wrapped operation and
  \<open>Wait d\<close> for one \<open>setTimeout\<close> of \<open>d\<close> milliseconds.
\<close>

datatype event = Call | Wait nat

type_synonym ('w, 'a) api = "'w \<Rightarrow> 'a api_outcome \<times> 'w"
type_synonym ('w, 'a) operation = "'w \<Rightarrow> (js_error + 'a) \<times> 'w"

section \<open>useMondayAPI: queryMonday\<close>

text \<open>
  The \<open>try\<close> block of \<open>queryMonday\<close> after \<open>monday.api\<close> has settled either returns
  the data, or returns the recursive call (whose rejection is not caught by this
  \<open>catch\<close>: it is returned, not awaited), or throws into the \<open>catch\<close> block.
\<close>

datatype 'a try_result = TryReturn 'a | TryRetry | TryThrow js_error

definition rateLimitError :: "gql_error list \<Rightarrow> bool" where
  "rateLimitError errs =
     list_ex (\<lambda>err. str_includes (err_message err) ''Rate limit passed''
                   \<or> str_includes (err_message err) ''Rate limit exceeded'') errs"

definition queryMonday_try :: "'a api_outcome \<Rightarrow> nat \<Rightarrow> 'a try_result" where
  "queryMonday_try out retries =
     (case out of
        Rejected error \<Rightarrow> TryThrow error
      | Resolved resp \<Rightarrow>
          (case errors resp of
             Some errs \<Rightarrow>
               if rateLimitError errs \<and> retries > 0 then TryRetry
               else TryThrow (new_Error (join ''; '' (map err_message errs)))
           | None \<Rightarrow> TryReturn (data resp)))"

text \<open>The condition of the \<open>catch\<close> block under which the call is repeated.\<close>

definition queryMonday_catch_retries :: "js_error \<Rightarrow> nat \<Rightarrow> bool" where
  "queryMonday_catch_retries error retries =
     (str_includes (message error) ''Rate limit passed'' \<and> retries > 0)"

text \<open>
  \<open>queryMonday(query, variables, retries, delay)\<close>: the query and its variables
  are fixed in \<open>api\<close>; the budget and the delay are natural numbers, as at every
  call site (the defaults 3 and 500).
\<close>

function queryMonday ::
  "('w, 'a) api \<Rightarrow> nat \<Rightarrow> nat \<Rightarrow> 'w \<Rightarrow> (js_error + 'a) \<times> 'w \<times> event list" where
  "queryMonday api retries delay w =
     (case api w of (out, w1) \<Rightarrow>
        (case queryMonday_try out retries of
           TryReturn d \<Rightarrow> (Inr d, w1, [Call])
         | TryRetry \<Rightarrow>
             (case queryMonday api (retries - 1) (delay * 2) w1 of
                (res, w2, log) \<Rightarrow> (res, w2, Call # Wait delay # log))
         | TryThrow error \<Rightarrow>
             if queryMonday_catch_retries error retries
             then (case queryMonday api (retries - 1) (delay * 2) w1 of
                     (res, w2, log) \<Rightarrow> (res, w2, Call # Wait delay # log))
             else (Inl error, w1, [Call])))"
  by pat_completeness auto
termination
  by (relation "measure (\<lambda>(api, retries, delay, w). retries)")
     (auto simp: queryMonday_catch_retries_def queryMonday_try_def
           split: api_outcome.splits option.splits if_splits)

section \<open>App: the retry helper\<close>

text \<open>
  The four tests of \<open>retry\<close> on the caught error. \<open>error.message && ...\<close> is
  falsy for an empty message, as \<open>includes\<close> is on it.
\<close>

definition isConcurrencyError :: "js_error \<Rightarrow> bool" where
  "isConcurrencyError error = str_includes (message error) ''Concurrency limit exceeded''"

definition isGraphqlError :: "js_error \<Rightarrow> bool" where
  "isGraphqlError error = str_includes (message error) ''Graphql validation errors''"

definition isRateLimitStatusCode :: "js_error \<Rightarrow> bool" where
  "isRateLimitStatusCode error =
     (case response error of None \<Rightarrow> False | Some r \<Rightarrow> status r = Some 429)"

definition isFieldLimitExceededCode :: "js_error \<Rightarrow> bool" where
  "isFieldLimitExceededCode error =
     (case response error of
        None \<Rightarrow> False
      | Some r \<Rightarrow>
          (case resp_errors r of
             [] \<Rightarrow> False
           | g # _ \<Rightarrow> ext_code g = Some ''FIELD_LIMIT_EXCEEDED''))"

definition retry_classifier :: "js_error \<Rightarrow> bool" where
  "retry_classifier error =
     (isConcurrencyError error \<or> isGraphqlError error
      \<or> isRateLimitStatusCode error \<or> isFieldLimitExceededCode error)"

text \<open>
  \<open>retry(fn, retries, delay, factor)\<close>, with natural numbers for the budget, the
  delay and the factor (the defaults 5, 2000 and 2 at every call site).
\<close>

function retry ::
  "('w, 'a) operation \<Rightarrow> nat \<Rightarrow> nat \<Rightarrow> nat \<Rightarrow> 'w \<Rightarrow> (js_error + 'a) \<times> 'w \<times> event list" where
  "retry fn retries delay factor w =
     (case fn w of
        (Inr v, w1) \<Rightarrow> (Inr v, w1, [Call])
      | (Inl error, w1) \<Rightarrow>
          if retries > 0 \<and> retry_classifier error
          then (case retry fn (retries - 1) (delay * factor) factor w1 of
                  (res, w2, log) \<Rightarrow> (res, w2, Call # Wait delay # log))
          else (Inl error, w1, [Call]))"
  by pat_completeness auto
termination
  by (relation "measure (\<lambda>(fn, retries, delay, factor, w). retries)") auto

text \<open>
  Reading a log: the number of invocations, the waits in order, and the world in which
  the \<open>n\<close>-th further invocation of an operation starts.
\<close>

definition attempts :: "event list \<Rightarrow> nat" where
  "attempts log = length (filter (\<lambda>ev. ev = Call) log)"

fun waits :: "event list \<Rightarrow> nat list" where
  "waits [] = []"
| "waits (Call # log) = waits log"
| "waits (Wait d # log) = d # waits log"

fun world_after :: "('w \<Rightarrow> 'r \<times> 'w) \<Rightarrow> nat \<Rightarrow> 'w \<Rightarrow> 'w" where
  "world_after f 0 w = w"
| "world_after f (Suc n) w = world_after f n (snd (f w))"

text \<open>
  Every call site wraps one query as \<open>retry(() => queryMonday(query))\<close>, with the
  default budgets of both functions: three retries from 500 ms inside, five retries
  from 2000 ms with factor 2 outside.
\<close>

definition executeQuery :: "('w, 'a) api \<Rightarrow> ('w, 'a) operation" where
  "executeQuery api w =
     (case retry (\<lambda>w0. case queryMonday api 3 500 w0 of (res, w1, log) \<Rightarrow> (res, w1))
                 5 2000 2 w of
        (res, w2, log) \<Rightarrow> (res, w2))"

section \<open>JSON values\<close>

text \<open>
  A parsed JSON document. Numbers are integers here (identifiers and flags are all the
  code reads); an object is its list of properties. \<open>JSON.parse\<close> and
  \<open>JSON.stringify\<close> belong to the platform and are parameters of the functions that
  call them: \<open>parse s = None\<close> is the \<open>SyntaxError\<close> of \<open>JSON.parse(s)\<close>.
\<close>

datatype json =
    JNull
  | JBool bool
  | JNum int
  | JStr string
  | JArr "json list"
  | JObj "(string \<times> json) list"

type_synonym json_parse = "string \<Rightarrow> json option"
type_synonym json_stringify = "json \<Rightarrow> string"

text \<open>Truthiness of a value; \<open>None\<close> stands for \<open>undefined\<close> where a property may be missing.\<close>

fun truthy :: "json \<Rightarrow> bool" where
  "truthy JNull = False"
| "truthy (JBool b) = b"
| "truthy (JNum n) = (n \<noteq> 0)"
| "truthy (JStr s) = (s \<noteq> [])"
| "truthy (JArr xs) = True"
| "truthy (JObj kvs) = True"

definition truthy_opt :: "json option \<Rightarrow> bool" where
  "truthy_opt v = (case v of None \<Rightarrow> False | Some x \<Rightarrow> truthy x)"

text \<open>
  \<open>v.key\<close> for one of the property names the code uses: a \<open>TypeError\<close> on
  \<open>null\<close> (the outer \<open>None\<close>), the property of an object, \<open>undefined\<close> on
  every other value.
\<close>

fun get_prop :: "json \<Rightarrow> string \<Rightarrow> json option option" where
  "get_prop JNull key = None"
| "get_prop (JObj kvs) key = Some (map_of kvs key)"
| "get_prop v key = Some None"

text \<open>
  \<open>String(n)\<close> for an integer of magnitude below 10^21, which is written with
  all its digits (from there on \<open>String\<close> uses the exponent notation), and
  \<open>String(v)\<close>.
\<close>

function show_nat :: "nat \<Rightarrow> string" where
  "show_nat n =
     (if n < 10 then [''0123456789'' ! n]
      else show_nat (n div 10) @ [''0123456789'' ! (n mod 10)])"
  by pat_completeness auto
termination
  by (relation "measure id") auto

definition show_int :: "int \<Rightarrow> string" where
  "show_int i = (if i < 0 then CHR ''-'' # show_nat (nat (- i)) else show_nat (nat i))"

fun js_String :: "json \<Rightarrow> string" where
  "js_String JNull = ''null''"
| "js_String (JBool b) = (if b then ''true'' else ''false'')"
| "js_String (JNum n) = show_int n"
| "js_String (JStr s) = s"
| "js_String (JArr xs) =
     join '','' (map (\<lambda>x. if x = JNull then [] else js_String x) xs)"
| "js_String (JObj kvs) = ''[object Object]''"

text \<open>
  \<open>s.trim()\<close> removes white space and line terminators at both ends. These are
  the characters that ECMAScript counts as such, each in its UTF-8 encoding: U+0009 to
  U+000D, U+0020, U+00A0, U+1680, U+2000 to U+200A, U+2028, U+2029, U+202F, U+205F,
  U+3000 and U+FEFF.
\<close>

definition white_spaces :: "string list" where
  "white_spaces =
     [[CHR 0x09], [CHR 0x0A], [CHR 0x0B], [CHR 0x0C], [CHR 0x0D], [CHR 0x20],
      [CHR 0xC2, CHR 0xA0],
      [CHR 0xE1, CHR 0x9A, CHR 0x80],
      [CHR 0xE2, CHR 0x80, CHR 0x80], [CHR 0xE2, CHR 0x80, CHR 0x81],
      [CHR 0xE2, CHR 0x80, CHR 0x82], [CHR 0xE2, CHR 0x80, CHR 0x83],
      [CHR 0xE2, CHR 0x80, CHR 0x84], [CHR 0xE2, CHR 0x80, CHR 0x85],
      [CHR 0xE2, CHR 0x80, CHR 0x86], [CHR 0xE2, CHR 0x80, CHR 0x87],
      [CHR 0xE2, CHR 0x80, CHR 0x88], [CHR 0xE2, CHR 0x80, CHR 0x89],
      [CHR 0xE2, CHR 0x80, CHR 0x8A],
      [CHR 0xE2, CHR 0x80, CHR 0xA8], [CHR 0xE2, CHR 0x80, CHR 0xA9],
      [CHR 0xE2, CHR 0x80, CHR 0xAF],
      [CHR 0xE2, CHR 0x81, CHR 0x9F],
      [CHR 0xE3, CHR 0x80, CHR 0x80],
      [CHR 0xEF, CHR 0xBB, CHR 0xBF]]"

text \<open>
  Removing, as long as there is one, a pattern that the string starts with; the end of
  the string is trimmed as the start of the reversed string.
\<close>

function strip_prefixes :: "string list \<Rightarrow> string \<Rightarrow> string" where
  "strip_prefixes pats s =
     (case find (\<lambda>p. p \<noteq> [] \<and> starts_with s p) pats of
        Some p \<Rightarrow> strip_prefixes pats (drop (length p) s)
      | None \<Rightarrow> s)"
  by pat_completeness auto
termination
proof (relation "measure (\<lambda>(pats, s). length s)")
  show "wf (measure (\<lambda>(pats, s). length s))" by simp
next
  fix pats :: "string list" and s p :: string
  assume "find (\<lambda>p. p \<noteq> [] \<and> starts_with s p) pats = Some p"
  then have "p \<noteq> []" "starts_with s p" by (auto simp: find_Some_iff)
  then have "s \<noteq> []" by (cases s; cases p) auto
  with \<open>p \<noteq> []\<close> show "((pats, drop (length p) s), (pats, s)) \<in> measure (\<lambda>(pats, s). length s)"
    by (cases s; cases p) auto
qed

definition trimStart :: "string \<Rightarrow> string" where
  "trimStart s = strip_prefixes white_spaces s"

definition trimEnd :: "string \<Rightarrow> string" where
  "trimEnd s = rev (strip_prefixes (map rev white_spaces) (rev s))"

definition trim :: "string \<Rightarrow> string" where
  "trim s = trimEnd (trimStart s)"

section \<open>App: settings in the host storage\<close>

text \<open>
  The host storage as far as the key \<open>appSettings\<close> goes: the value stored
  (\<open>JNull\<close> when there is none; the host may hold a value that is not a string),
  whether \<open>removeItem\<close> exists on the instance, and the error each call rejects with,
  if it does.
\<close>

record storage =
  entry :: json
  getItem_error :: "js_error option"
  setItem_error :: "js_error option"
  removeItem_available :: bool
  removeItem_error :: "js_error option"

definition getItem :: "storage \<Rightarrow> js_error + json" where
  "getItem sto = (case getItem_error sto of Some e \<Rightarrow> Inl e | None \<Rightarrow> Inr (entry sto))"

definition setItem :: "string \<Rightarrow> storage \<Rightarrow> js_error + storage" where
  "setItem v sto =
     (case setItem_error sto of Some e \<Rightarrow> Inl e | None \<Rightarrow> Inr (sto\<lparr>entry := JStr v\<rparr>))"

definition removeItem :: "storage \<Rightarrow> js_error + storage" where
  "removeItem sto =
     (case removeItem_error sto of Some e \<Rightarrow> Inl e | None \<Rightarrow> Inr (sto\<lparr>entry := JNull\<rparr>))"

text \<open>
  The three state variables that are persisted. \<open>loadSettings\<close> stores whatever the
  parsed document holds under their names, so they are JSON values; the defaults are
  two empty arrays and \<open>false\<close>.
\<close>

record settings =
  selectedBoardIds :: json
  selectedColumnIds :: json
  isSidebarOpen :: json

definition default_settings :: settings where
  "default_settings =
     \<lparr>selectedBoardIds = JArr [], selectedColumnIds = JArr [], isSidebarOpen = JBool False\<rparr>"

section \<open>Boards, columns and items\<close>

record column =
  col_id :: string
  col_title :: string
  col_type :: string
  settings_str :: "string option"

record column_value =
  cv_id :: string
  cv_text :: "string option"
  cv_value :: "string option"
  display_value :: "string option"

record item =
  item_id :: string
  item_name :: string
  column_values :: "column_value list"

text \<open>An item of the table: the fetched item with \<open>boardId\<close> and \<open>boardName\<close> added.\<close>

record board_item = item +
  boardId :: string
  boardName :: string

text \<open>
  One element of \<open>data.boards\<close> in a response: \<open>columns\<close> is what the columns query
  selects, \<open>items\<close> is \<open>items_page.items\<close> of the items query (\<open>None\<close> when
  \<open>items_page\<close> or its \<open>items\<close> is missing). The data of a response is
  \<open>data.boards\<close>, \<open>None\<close> when \<open>data\<close> or \<open>data.boards\<close> is missing.
\<close>

record board_response =
  br_id :: string
  br_name :: string
  br_columns :: "column list option"
  br_items :: "item list option"

type_synonym api_data = "board_response list option"

text \<open>One entry of \<open>allBoardsData\<close>.\<close>

record board_entry =
  be_id :: string
  be_name :: string
  be_columns :: "column list"

text \<open>
  The query documents, by what they ask for (the text of a document plays no part in
  what follows).
\<close>

datatype query =
    GET_BOARDS_QUERY
  | GET_BOARD_COLUMNS_QUERY
  | GET_BOARD_ITEMS_WITH_COLUMNS_QUERY string "string list"

section \<open>App: state\<close>

text \<open>
  The other state variables of \<open>App\<close>. The effects and callbacks close over
  \<open>selectedBoardIds\<close> and \<open>selectedColumnIds\<close>; the functions below that walk
  them take them as lists of identifiers.
\<close>

record app_state =
  isAppLoading :: bool
  appError :: "string option"
  isLoadingColumns :: bool
  isLoadingItems :: bool
  isPolling :: bool
  allBoardsData :: "string \<rightharpoonup> board_entry"
  boardItems :: "board_item list"
  columnsError :: "string option"
  itemsError :: "string option"

section \<open>App: loadSettings and saveSettingsAutomatically\<close>

text \<open>
  The body of the inner \<open>try\<close> after \<open>JSON.parse\<close>: \<open>None\<close> is the
  \<open>TypeError\<close> of reading a property of \<open>null\<close>, which happens before any setter
  is called.
\<close>

definition loadSettings_parsed :: "json \<Rightarrow> settings \<Rightarrow> settings option" where
  "loadSettings_parsed parsedSettings s =
     (case get_prop parsedSettings ''selectedBoardIds'' of
        None \<Rightarrow> None
      | Some boardIds \<Rightarrow>
          (case get_prop parsedSettings ''selectedColumnIds'' of
             None \<Rightarrow> None
           | Some columnIds \<Rightarrow>
               (case get_prop parsedSettings ''isDialogOpen'' of
                  None \<Rightarrow> None
                | Some dialogOpen \<Rightarrow>
                    (case get_prop parsedSettings ''isPopoverOpen'' of
                       None \<Rightarrow> None
                     | Some popoverOpen \<Rightarrow>
                         (case get_prop parsedSettings ''isSidebarOpen'' of
                            None \<Rightarrow> None
                          | Some sidebarOpen \<Rightarrow>
                              Some
                                (let s1 = (case boardIds of
                                             Some v \<Rightarrow> if truthy v then s\<lparr>selectedBoardIds := v\<rparr> else s
                                           | None \<Rightarrow> s);
                                     s2 = (case columnIds of
                                             Some v \<Rightarrow> if truthy v then s1\<lparr>selectedColumnIds := v\<rparr> else s1
                                           | None \<Rightarrow> s1)
                                 in case dialogOpen of
                                      Some v \<Rightarrow> s2\<lparr>isSidebarOpen := v\<rparr>
                                    | None \<Rightarrow>
                                        (case popoverOpen of
                                           Some v \<Rightarrow> s2\<lparr>isSidebarOpen := v\<rparr>
                                         | None \<Rightarrow>
                                             (case sidebarOpen of
                                                Some v \<Rightarrow> s2\<lparr>isSidebarOpen := v\<rparr>
                                              | None \<Rightarrow> s2))))))))"

text \<open>Clearing the entry, guarded by the test that \<open>removeItem\<close> is a function.\<close>

definition clear_corrupted :: "storage \<Rightarrow> js_error + storage" where
  "clear_corrupted sto = (if removeItem_available sto then removeItem sto else Inr sto)"

text \<open>
  The outer \<open>try\<close> block after the two setters at its start: it ends normally with
  the settings and the storage, or throws into the outer \<open>catch\<close>.
\<close>

definition loadSettings_try ::
  "json_parse \<Rightarrow> settings \<Rightarrow> storage \<Rightarrow> js_error + (settings \<times> storage)" where
  "loadSettings_try parse s sto =
     (case getItem sto of
        Inl err \<Rightarrow> Inl err
      | Inr settingsString \<Rightarrow>
          if truthy settingsString then
            (case settingsString of
               JStr str \<Rightarrow>
                 (case (case parse str of
                          None \<Rightarrow> None
                        | Some parsedSettings \<Rightarrow> loadSettings_parsed parsedSettings s) of
                    Some s' \<Rightarrow> Inr (s', sto)
                  | None \<Rightarrow>
                      (case clear_corrupted sto of
                         Inl err \<Rightarrow> Inl err
                       | Inr sto' \<Rightarrow> Inr (s, sto')))
             | _ \<Rightarrow>
                 (case clear_corrupted sto of
                    Inl err \<Rightarrow> Inl err
                  | Inr sto' \<Rightarrow> Inr (s, sto')))
          else Inr (s, sto))"

definition loadSettings ::
  "json_parse \<Rightarrow> settings \<times> app_state \<times> storage \<Rightarrow> settings \<times> app_state \<times> storage" where
  "loadSettings parse cfg =
     (case cfg of (s, st, sto) \<Rightarrow>
        (let st1 = st\<lparr>isAppLoading := True, appError := None\<rparr> in
         case loadSettings_try parse s sto of
           Inr (s', sto') \<Rightarrow> (s', st1\<lparr>isAppLoading := False\<rparr>, sto')
         | Inl err \<Rightarrow>
             (s,
              st1\<lparr>appError := Some (''Error loading settings: '' @ message err),
                  isAppLoading := False\<rparr>,
              if removeItem_available sto
              then (case removeItem sto of Inl clearError \<Rightarrow> sto | Inr sto' \<Rightarrow> sto')
              else sto)))"

definition settingsToSave :: "settings \<Rightarrow> json" where
  "settingsToSave s =
     JObj [(''selectedBoardIds'', selectedBoardIds s),
           (''selectedColumnIds'', selectedColumnIds s),
           (''isSidebarOpen'', isSidebarOpen s)]"

text \<open>
  The save effect: nothing while the app is loading; otherwise one \<open>setItem\<close>, whose
  failure becomes the text of an error toast (the second component).
\<close>

definition saveSettingsAutomatically ::
  "json_stringify \<Rightarrow> settings \<Rightarrow> app_state \<Rightarrow> storage \<Rightarrow> storage \<times> string option" where
  "saveSettingsAutomatically stringify s st sto =
     (if \<not> isAppLoading st then
        (case setItem (stringify (settingsToSave s)) sto of
           Inr sto' \<Rightarrow> (sto', None)
         | Inl error \<Rightarrow> (sto, Some (''Auto-save error: '' @ message error)))
      else (sto, None))"

section \<open>App: fetchBoardData\<close>

text \<open>
  The \<open>forEach\<close> over \<open>columnsData.boards\<close>: selected boards are entered under
  their id, a later board with the same id replacing an earlier one.
\<close>

definition collect_boards :: "string list \<Rightarrow> board_response list \<Rightarrow> (string \<rightharpoonup> board_entry)" where
  "collect_boards boardIds boards =
     foldl (\<lambda>newAllBoardsData board.
              if br_id board \<in> set boardIds
              then newAllBoardsData(br_id board \<mapsto>
                     \<lparr>be_id = br_id board, be_name = br_name board,
                      be_columns = (case br_columns board of Some cs \<Rightarrow> cs | None \<Rightarrow> [])\<rparr>)
              else newAllBoardsData)
           Map.empty boards"

definition boardName_for :: "(string \<rightharpoonup> board_entry) \<Rightarrow> string \<Rightarrow> string" where
  "boardName_for newAllBoardsData bid =
     (case newAllBoardsData bid of
        Some b \<Rightarrow> if be_name b \<noteq> [] then be_name b else ''Board '' @ bid
      | None \<Rightarrow> ''Board '' @ bid)"

definition itemsWithBoardInfo ::
  "(string \<rightharpoonup> board_entry) \<Rightarrow> string \<Rightarrow> api_data \<Rightarrow> board_item list" where
  "itemsWithBoardInfo newAllBoardsData bid itemsData =
     (case itemsData of
        Some (b # _) \<Rightarrow>
          (case br_items b of
             Some items \<Rightarrow>
               map (\<lambda>it. \<lparr>item_id = item_id it, item_name = item_name it,
                          column_values = column_values it,
                          boardId = bid, boardName = boardName_for newAllBoardsData bid\<rparr>) items
           | None \<Rightarrow> [])
      | _ \<Rightarrow> [])"

text \<open>
  The \<open>for\<close> loop over the selected boards, with \<open>fetchedItems\<close> as accumulator;
  a rejected fetch leaves the loop with the error.
\<close>

fun fetch_items ::
  "(query \<Rightarrow> ('w, api_data) api) \<Rightarrow> (string \<rightharpoonup> board_entry) \<Rightarrow> string list \<Rightarrow>
   string list \<Rightarrow> board_item list \<Rightarrow> 'w \<Rightarrow> (js_error + board_item list) \<times> 'w" where
  "fetch_items api newAllBoardsData columnIds [] fetchedItems w = (Inr fetchedItems, w)"
| "fetch_items api newAllBoardsData columnIds (bid # rest) fetchedItems w =
     (if length columnIds = 0
      then fetch_items api newAllBoardsData columnIds rest fetchedItems w
      else
        (case executeQuery (api (GET_BOARD_ITEMS_WITH_COLUMNS_QUERY bid columnIds)) w of
           (Inl error, w1) \<Rightarrow> (Inl error, w1)
         | (Inr itemsData, w1) \<Rightarrow>
             fetch_items api newAllBoardsData columnIds rest
               (fetchedItems @ itemsWithBoardInfo newAllBoardsData bid itemsData) w1))"

text \<open>The \<open>catch\<close> block of \<open>fetchBoardData\<close>.\<close>

definition fetchBoardData_catch :: "js_error \<Rightarrow> app_state \<Rightarrow> app_state" where
  "fetchBoardData_catch error st =
     (if str_includes (message error) ''columns''
      then st\<lparr>columnsError :=
                Some (''Error loading columns: '' @ message error
                      @ ''. Please check selected boards.'')\<rparr>
      else st\<lparr>itemsError := Some (''Error loading items: '' @ message error @ ''.'')\<rparr>)"

text \<open>
  The state while a call of \<open>fetchBoardData\<close> with a non-empty selection waits for
  the network: the three setters before the first \<open>await\<close> have run.
\<close>

definition fetchBoardData_started :: "app_state \<Rightarrow> app_state" where
  "fetchBoardData_started st = st\<lparr>isPolling := True, columnsError := None, itemsError := None\<rparr>"

definition fetchBoardData ::
  "(query \<Rightarrow> ('w, api_data) api) \<Rightarrow> string list \<Rightarrow> string list \<Rightarrow> app_state \<Rightarrow> 'w \<Rightarrow>
   app_state \<times> 'w" where
  "fetchBoardData api boardIds columnIds st w =
     (if length boardIds = 0
      then (st\<lparr>allBoardsData := Map.empty, boardItems := [],
               columnsError := None, itemsError := None\<rparr>, w)
      else
        (let st1 = fetchBoardData_started st in
         case executeQuery (api GET_BOARD_COLUMNS_QUERY) w of
           (Inl error, w1) \<Rightarrow> ((fetchBoardData_catch error st1)\<lparr>isPolling := False\<rparr>, w1)
         | (Inr columnsData, w1) \<Rightarrow>
             (let newAllBoardsData =
                    (case columnsData of
                       Some boards \<Rightarrow> collect_boards boardIds boards
                     | None \<Rightarrow> Map.empty);
                  st2 = st1\<lparr>allBoardsData := newAllBoardsData\<rparr>
              in case fetch_items api newAllBoardsData columnIds boardIds [] w1 of
                   (Inl error, w2) \<Rightarrow> ((fetchBoardData_catch error st2)\<lparr>isPolling := False\<rparr>, w2)
                 | (Inr fetchedItems, w2) \<Rightarrow>
                     (st2\<lparr>boardItems := fetchedItems, isPolling := False\<rparr>, w2))))"

section \<open>App: the polling timer\<close>

text \<open>
  The state while \<open>loadContentData\<close> (the load after a change of the selection) waits
  for its call of \<open>fetchBoardData\<close>, and the test of the interval callback: whether
  a tick calls \<open>fetchBoardData\<close>.
\<close>

definition loadContentData_started :: "app_state \<Rightarrow> app_state" where
  "loadContentData_started st = st\<lparr>isLoadingColumns := True, isLoadingItems := True\<rparr>"

definition polling_tick :: "app_state \<Rightarrow> string list \<Rightarrow> string list \<Rightarrow> bool" where
  "polling_tick st boardIds columnIds =
     (\<not> isAppLoading st \<and> \<not> isLoadingColumns st \<and> \<not> isLoadingItems st
      \<and> length boardIds > 0 \<and> length columnIds > 0)"

section \<open>App: allAvailableColumnsForSelectedBoards\<close>

text \<open>
  The \<open>Map\<close> is an association list in insertion order; \<open>Array.from(values())\<close> is
  the list of its values.
\<close>

definition columnsMap_add :: "(string \<times> column) list \<Rightarrow> column \<Rightarrow> (string \<times> column) list" where
  "columnsMap_add columnsMap col =
     (if \<not> (col_id col \<in> set (map fst columnsMap))
      then columnsMap @ [(col_id col, col)]
      else columnsMap)"

definition allAvailableColumnsForSelectedBoards ::
  "string list \<Rightarrow> (string \<rightharpoonup> board_entry) \<Rightarrow> column list" where
  "allAvailableColumnsForSelectedBoards boardIds boardsData =
     map snd
       (foldl (\<lambda>columnsMap bid.
                 case boardsData bid of
                   Some b \<Rightarrow> foldl columnsMap_add columnsMap (be_columns b)
                 | None \<Rightarrow> columnsMap)
              [] boardIds)"

text \<open>The columns of the selected boards in the order in which they are visited.\<close>

definition columns_in_order :: "string list \<Rightarrow> (string \<rightharpoonup> board_entry) \<Rightarrow> column list" where
  "columns_in_order boardIds boardsData =
     concat (map (\<lambda>bid. case boardsData bid of Some b \<Rightarrow> be_columns b | None \<Rightarrow> []) boardIds)"

section \<open>TaskTable: columns and filters\<close>

text \<open>What \<open>columnsForTable\<close> keeps of a column for filtering and sorting.\<close>

record column_meta =
  cm_id :: string
  cm_title :: string
  cm_type :: string

definition virtualColumns :: "column list" where
  "virtualColumns =
     [\<lparr>col_id = ''item_name_column'', col_title = ''Task Name'', col_type = ''item_name'',
       settings_str = None\<rparr>,
      \<lparr>col_id = ''board_name_column'', col_title = ''Board'', col_type = ''board_link'',
       settings_str = None\<rparr>]"

definition columnsForTable :: "string list \<Rightarrow> column list \<Rightarrow> column_meta list" where
  "columnsForTable columnIds allBoardColumns =
     map (\<lambda>col. \<lparr>cm_id = col_id col, cm_title = col_title col, cm_type = col_type col\<rparr>)
       (List.map_filter
          (\<lambda>colId. case find (\<lambda>vc. col_id vc = colId) virtualColumns of
                     Some virtualCol \<Rightarrow> Some virtualCol
                   | None \<Rightarrow> find (\<lambda>col. col_id col = colId) allBoardColumns)
          columnIds)"

text \<open>
  \<open>activeFilters\<close> is an object from column ids to arrays of selected values: an
  association list with one entry for each key. \<open>set_key\<close> is the spread
  \<open>{...prev, [k]: v}\<close>.
\<close>

type_synonym filters = "(string \<times> string list) list"

fun set_key :: "string \<Rightarrow> string list \<Rightarrow> filters \<Rightarrow> filters" where
  "set_key k v [] = [(k, v)]"
| "set_key k v ((k', v') # kvs) = (if k' = k then (k, v) # kvs else (k', v') # set_key k v kvs)"

definition handleFilterChange :: "string \<Rightarrow> string \<Rightarrow> bool \<Rightarrow> filters \<Rightarrow> filters" where
  "handleFilterChange columnId v isChecked prevFilters =
     (let currentColumnFilters = (case map_of prevFilters columnId of Some vs \<Rightarrow> vs | None \<Rightarrow> [])
      in if isChecked
         then set_key columnId (currentColumnFilters @ [v]) prevFilters
         else set_key columnId (filter (\<lambda>x. x \<noteq> v) currentColumnFilters) prevFilters)"

definition handleClearFilter :: "string \<Rightarrow> filters \<Rightarrow> filters" where
  "handleClearFilter columnId prevFilters = filter (\<lambda>kv. fst kv \<noteq> columnId) prevFilters"

text \<open>
  The status label that the filter compares: \<open>String(text).trim()\<close> (\<open>null\<close> reads
  \<open>null\<close>, a missing column value is the empty string), with the four empty forms
  replaced by \<open>No status\<close>.
\<close>

definition currentStatusText :: "column_value option \<Rightarrow> string" where
  "currentStatusText itemColumnValue =
     trim (case itemColumnValue of
             Some cv \<Rightarrow> (case cv_text cv of Some t \<Rightarrow> t | None \<Rightarrow> ''null'')
           | None \<Rightarrow> [])"

definition normalizedCurrentStatusText :: "column_value option \<Rightarrow> string" where
  "normalizedCurrentStatusText itemColumnValue =
     (let t = currentStatusText itemColumnValue
      in if t = ''-'' \<or> t = ''undefined'' \<or> t = ''null'' \<or> t = [] then ''No status'' else t)"

text \<open>
  The persons of a parsed person value; \<open>None\<close> is the \<open>TypeError\<close> of
  \<open>p.kind\<close> on a \<open>null\<close> element, which the surrounding \<open>try\<close> catches.
\<close>

definition filter_persons :: "json list \<Rightarrow> json list option" where
  "filter_persons xs =
     (if JNull \<in> set xs then None
      else Some (filter (\<lambda>p. get_prop p ''kind'' = Some (Some (JStr ''person''))) xs))"

definition persons_of :: "json \<Rightarrow> json list option" where
  "persons_of parsedValue =
     (case (if truthy parsedValue then get_prop parsedValue ''personsAndTeams'' else Some None) of
        Some (Some (JArr xs)) \<Rightarrow> filter_persons xs
      | _ \<Rightarrow> (case parsedValue of JArr ys \<Rightarrow> filter_persons ys | _ \<Rightarrow> Some []))"

definition person_id_in :: "string list \<Rightarrow> json \<Rightarrow> bool" where
  "person_id_in ids p =
     (case get_prop p ''id'' of
        Some (Some v) \<Rightarrow> truthy v \<and> js_String v \<in> set ids
      | _ \<Rightarrow> False)"

text \<open>\<open>cv.value\<close> is present and not blank.\<close>

definition has_value :: "column_value \<Rightarrow> bool" where
  "has_value cv = (case cv_value cv of Some v \<Rightarrow> v \<noteq> [] \<and> trim v \<noteq> [] | None \<Rightarrow> False)"

definition value_persons :: "json_parse \<Rightarrow> column_value \<Rightarrow> json list option" where
  "value_persons parse cv =
     (case cv_value cv of
        None \<Rightarrow> None
      | Some v \<Rightarrow> (case parse v of None \<Rightarrow> None | Some parsedValue \<Rightarrow> persons_of parsedValue))"

text \<open>\<open>display_value || text || ''\<close> of a column value.\<close>

definition display_text :: "column_value \<Rightarrow> string" where
  "display_text cv =
     (case display_value cv of
        Some d \<Rightarrow> if d \<noteq> [] then d else (case cv_text cv of Some t \<Rightarrow> t | None \<Rightarrow> [])
      | None \<Rightarrow> (case cv_text cv of Some t \<Rightarrow> t | None \<Rightarrow> []))"

text \<open>
  The callback of \<open>every\<close> in \<open>filteredAndSortedBoardItems\<close>: whether an item
  passes the entry \<open>(columnId, selectedValues)\<close> of \<open>activeFilters\<close>.
\<close>

definition column_filter_passes ::
  "json_parse \<Rightarrow> column_meta list \<Rightarrow> board_item \<Rightarrow> string \<times> string list \<Rightarrow> bool" where
  "column_filter_passes parse columns it kv =
     (case kv of (columnId, selectedValues) \<Rightarrow>
        if columnId = ''current_user_filter'' then True
        else if length selectedValues = 0 then True
        else
          (case find (\<lambda>col. cm_id col = columnId) columns of
             None \<Rightarrow> True
           | Some columnMeta \<Rightarrow>
               (let itemColumnValue = find (\<lambda>cv. cv_id cv = columnId) (column_values it) in
                if cm_type columnMeta = ''status''
                then normalizedCurrentStatusText itemColumnValue \<in> set selectedValues
                else if cm_type columnMeta = ''person'' \<or> cm_type columnMeta = ''people''
                then
                  (case itemColumnValue of
                     None \<Rightarrow> ''No user'' \<in> set selectedValues
                   | Some cv \<Rightarrow>
                       if \<not> has_value cv then ''No user'' \<in> set selectedValues
                       else (case value_persons parse cv of
                               None \<Rightarrow> False
                             | Some persons \<Rightarrow> list_ex (person_id_in selectedValues) persons))
                else
                  (let itemValueText =
                         trim (case itemColumnValue of Some cv \<Rightarrow> display_text cv | None \<Rightarrow> [])
                   in list_ex (\<lambda>val. str_includes itemValueText val) selectedValues))))"

text \<open>The "current user only" filter.\<close>

definition isFilterByCurrentUserActive :: "filters \<Rightarrow> bool" where
  "isFilterByCurrentUserActive activeFilters =
     (case map_of activeFilters ''current_user_filter'' of
        Some vs \<Rightarrow> ''true'' \<in> set vs
      | None \<Rightarrow> False)"

definition isUserMentioned :: "json_parse \<Rightarrow> column list \<Rightarrow> json \<Rightarrow> board_item \<Rightarrow> bool" where
  "isUserMentioned parse allBoardColumns currentUserId it =
     list_ex
       (\<lambda>cv. case find (\<lambda>col. col_id col = cv_id cv) allBoardColumns of
                None \<Rightarrow> False
              | Some columnMeta \<Rightarrow>
                  if col_type columnMeta = ''person'' \<or> col_type columnMeta = ''people''
                  then
                    (if has_value cv
                     then (case value_persons parse cv of
                             None \<Rightarrow> False
                           | Some persons \<Rightarrow>
                               list_ex (person_id_in [js_String currentUserId]) persons)
                     else False)
                  else False)
       (column_values it)"

text \<open>
  The filtering stage of \<open>filteredAndSortedBoardItems\<close>: \<open>finalFilteredItems\<close>, which
  is the view when no sort is active and the input of the sort otherwise.
\<close>

definition finalFilteredItems ::
  "json_parse \<Rightarrow> string list \<Rightarrow> column list \<Rightarrow> filters \<Rightarrow> json \<Rightarrow> board_item list \<Rightarrow>
   board_item list" where
  "finalFilteredItems parse columnIds allBoardColumns activeFilters currentUserId items =
     (if length items = 0 then []
      else
        (let filteredByCurrentUser =
               (if isFilterByCurrentUserActive activeFilters \<and> truthy currentUserId
                then filter (isUserMentioned parse allBoardColumns currentUserId) items
                else items)
         in filter
              (\<lambda>it. list_all
                      (column_filter_passes parse (columnsForTable columnIds allBoardColumns) it)
                      activeFilters)
              filteredByCurrentUser))"

section \<open>TaskTable: the comparator on a date column\<close>

text \<open>
  \<open>new Date(text).getTime()\<close> belongs to the platform: \<open>parse_date text\<close> is the
  time value in milliseconds since the epoch, \<open>None\<close> for an invalid date, whose
  time value is \<open>NaN\<close>. A column value without text stands for \<open>new Date(0)\<close>.
\<close>

type_synonym date_parse = "string \<Rightarrow> int option"

definition date_value :: "date_parse \<Rightarrow> column_value option \<Rightarrow> int option" where
  "date_value parse_date columnValue =
     (case columnValue of
        Some cv \<Rightarrow>
          (case cv_text cv of
             Some t \<Rightarrow> if t \<noteq> [] then parse_date t else Some 0
           | None \<Rightarrow> Some 0)
      | None \<Rightarrow> Some 0)"

text \<open>
  What the comparator returns for two items when the sort column has type \<open>date\<close>:
  the difference of the time values, negated unless the order is \<open>asc\<close>;
  \<open>None\<close> is \<open>NaN\<close>.
\<close>

definition date_comparator ::
  "date_parse \<Rightarrow> string \<Rightarrow> string \<Rightarrow> board_item \<Rightarrow> board_item \<Rightarrow> int option" where
  "date_comparator parse_date sortColumnId sortOrder a b =
     (let columnValueA = find (\<lambda>cv. cv_id cv = sortColumnId) (column_values a);
          columnValueB = find (\<lambda>cv. cv_id cv = sortColumnId) (column_values b);
          comparison =
            (case (date_value parse_date columnValueA, date_value parse_date columnValueB) of
               (Some ta, Some tb) \<Rightarrow> Some (ta - tb)
             | _ \<Rightarrow> None)
      in if sortOrder = ''asc'' then comparison else map_option uminus comparison)"

section \<open>Notions used in the statements\<close>

subsection \<open>Failing operations\<close>

text \<open>
  An operation whose every attempt fails with an error that \<open>retry\<close> classifies as
  worth retrying, in whatever world it starts.
\<close>

definition always_transient :: "('w, 'a) operation \<Rightarrow> bool" where
  "always_transient fn = (\<forall>w. case fst (fn w) of Inl e \<Rightarrow> retry_classifier e | Inr v \<Rightarrow> False)"

text \<open>
  An outcome of \<open>monday.api\<close> that is a failure (a rejection, or a response with an
  error list), the error that \<open>queryMonday\<close> throws for it, and the outcomes in which
  \<open>queryMonday\<close> sees a rate limit: the marker that its \<open>catch\<close> block looks for in
  a thrown error, either marker in an error list.
\<close>

definition failed_outcome :: "'a api_outcome \<Rightarrow> bool" where
  "failed_outcome out =
     (case out of Rejected e \<Rightarrow> True | Resolved resp \<Rightarrow> errors resp \<noteq> None)"

definition outcome_error :: "'a api_outcome \<Rightarrow> js_error" where
  "outcome_error out =
     (case out of
        Rejected e \<Rightarrow> e
      | Resolved resp \<Rightarrow>
          new_Error (join ''; '' (map err_message (case errors resp of Some errs \<Rightarrow> errs | None \<Rightarrow> []))))"

definition rate_limit_outcome :: "'a api_outcome \<Rightarrow> bool" where
  "rate_limit_outcome out =
     (case out of
        Rejected e \<Rightarrow> str_includes (message e) ''Rate limit passed''
      | Resolved resp \<Rightarrow>
          (case errors resp of Some errs \<Rightarrow> rateLimitError errs | None \<Rightarrow> False))"

definition always_rate_limited :: "('w, 'a) api \<Rightarrow> bool" where
  "always_rate_limited api = (\<forall>w. rate_limit_outcome (fst (api w)))"

text \<open>The tag of the specification: an error that names itself \<open>ExhaustedRetries\<close>.\<close>

definition tagged_ExhaustedRetries :: "js_error \<Rightarrow> bool" where
  "tagged_ExhaustedRetries e = (name e = ''ExhaustedRetries'')"

text \<open>
  Rate limiting in the words of the specification: a marker of the platform in the
  message of the error.
\<close>

definition indicates_rate_limiting :: "js_error \<Rightarrow> bool" where
  "indicates_rate_limiting e =
     (str_includes (message e) ''Rate limit passed''
      \<or> str_includes (message e) ''Rate limit exceeded'')"

subsection \<open>Test doubles\<close>

text \<open>
  Operations on a world that counts the calls: one that always throws a given error,
  a \<open>monday.api\<close> that always rejects with it, one that always answers with an error
  list.
\<close>

definition failing_operation :: "js_error \<Rightarrow> (nat, unit) operation" where
  "failing_operation e w = (Inl e, Suc w)"

definition rejecting_api :: "js_error \<Rightarrow> (nat, unit) api" where
  "rejecting_api e w = (Rejected e, Suc w)"

definition error_list_api :: "gql_error list \<Rightarrow> (nat, unit) api" where
  "error_list_api errs w = (Resolved \<lparr>errors = Some errs, data = ()\<rparr>, Suc w)"

definition field_limit_error :: js_error where
  "field_limit_error =
     \<lparr>name = ''Error'', message = ''Request failed'',
      response = Some \<lparr>status = Some 200,
                       resp_errors = [\<lparr>err_message = ''Too many requests for this field'',
                                       ext_code = Some ''FIELD_LIMIT_EXCEEDED''\<rparr>]\<rparr>\<rparr>"

subsection \<open>Refreshes\<close>

text \<open>
  In a run of the loop over the selected boards that starts in the world \<open>w\<close>, the
  item fetch of some board fails: the boards before it are fetched one after the
  other, each in the world that the fetch before it left, and then the executor's call
  for the items of that board ends with an error.
\<close>

fun item_fetch_fails ::
  "(query \<Rightarrow> ('w, api_data) api) \<Rightarrow> string list \<Rightarrow> string list \<Rightarrow> 'w \<Rightarrow> bool" where
  "item_fetch_fails api columnIds [] w = False"
| "item_fetch_fails api columnIds (bid # rest) w =
     (columnIds \<noteq> []
      \<and> (case executeQuery (api (GET_BOARD_ITEMS_WITH_COLUMNS_QUERY bid columnIds)) w of
             (Inl e, w1) \<Rightarrow> True
           | (Inr d, w1) \<Rightarrow> item_fetch_fails api columnIds rest w1))"

text \<open>
  A platform with the boards \<open>b1\<close> and \<open>b2\<close> in an outage of \<open>b2\<close>: until the
  hundredth call, the items query for \<open>b2\<close> hits the concurrency limit. And an idle
  application that shows one item.
\<close>

definition sample_item :: item where
  "sample_item =
     \<lparr>item_id = ''1'', item_name = ''Task'',
      column_values = [\<lparr>cv_id = ''c1'', cv_text = Some ''Done'', cv_value = None,
                        display_value = None\<rparr>]\<rparr>"

definition two_board_columns :: api_data where
  "two_board_columns =
     Some [\<lparr>br_id = ''b1'', br_name = ''One'', br_columns = Some [], br_items = None\<rparr>,
           \<lparr>br_id = ''b2'', br_name = ''Two'', br_columns = Some [], br_items = None\<rparr>]"

definition outage_api :: "query \<Rightarrow> (nat, api_data) api" where
  "outage_api q w =
     (case q of
        GET_BOARD_ITEMS_WITH_COLUMNS_QUERY bid columnIds \<Rightarrow>
          if bid = ''b2'' \<and> w < 100
          then (Rejected (new_Error ''Concurrency limit exceeded''), Suc w)
          else (Resolved \<lparr>errors = None,
                          data = Some [\<lparr>br_id = bid, br_name = ''One'', br_columns = None,
                                        br_items = Some [sample_item]\<rparr>]\<rparr>, Suc w)
      | _ \<Rightarrow> (Resolved \<lparr>errors = None, data = two_board_columns\<rparr>, Suc w))"

definition shown_item :: board_item where
  "shown_item =
     \<lparr>item_id = ''0'', item_name = ''Shown before'', column_values = [],
      boardId = ''b1'', boardName = ''One''\<rparr>"

definition idle_state :: app_state where
  "idle_state =
     \<lparr>isAppLoading = False, appError = None, isLoadingColumns = False,
      isLoadingItems = False, isPolling = False, allBoardsData = Map.empty,
      boardItems = [shown_item], columnsError = None, itemsError = None\<rparr>"

subsection \<open>Merged columns\<close>

text \<open>
  The merge in the words of the specification: of the columns with a given id, the one
  seen last. Two boards that both have a column with the id \<open>status\<close>.
\<close>

definition last_seen_column :: "column list \<Rightarrow> string \<Rightarrow> column option" where
  "last_seen_column cols cid = find (\<lambda>c. col_id c = cid) (rev cols)"

definition status_of_first :: column where
  "status_of_first =
     \<lparr>col_id = ''status'', col_title = ''Status'', col_type = ''status'', settings_str = None\<rparr>"

definition status_of_second :: column where
  "status_of_second =
     \<lparr>col_id = ''status'', col_title = ''Stage'', col_type = ''status'', settings_str = None\<rparr>"

definition two_boards :: "string \<rightharpoonup> board_entry" where
  "two_boards =
     [''b1'' \<mapsto> \<lparr>be_id = ''b1'', be_name = ''One'', be_columns = [status_of_first]\<rparr>,
      ''b2'' \<mapsto> \<lparr>be_id = ''b2'', be_name = ''Two'', be_columns = [status_of_second]\<rparr>]"

subsection \<open>White space\<close>

text \<open>
  A string that consists of white space only, and a string that neither starts nor
  ends with white space.
\<close>

definition white_run :: "string \<Rightarrow> bool" where
  "white_run s = (\<exists>parts. set parts \<subseteq> set white_spaces \<and> s = concat parts)"

definition trimmed :: "string \<Rightarrow> bool" where
  "trimmed s =
     list_all (\<lambda>ws. \<not> starts_with s ws \<and> \<not> starts_with (rev s) (rev ws)) white_spaces"

subsection \<open>Status filters and date sorts\<close>

text \<open>
  A table with one status column and one date column, and items for it: one whose
  status text is empty, one without a date, one dated before 1970.
\<close>

definition status_and_date_columns :: "column list" where
  "status_and_date_columns =
     [status_of_first,
      \<lparr>col_id = ''due'', col_title = ''Due'', col_type = ''date'', settings_str = None\<rparr>]"

definition status_and_date :: "column_meta list" where
  "status_and_date = columnsForTable [''status'', ''due''] status_and_date_columns"

definition item_without_status :: board_item where
  "item_without_status =
     \<lparr>item_id = ''1'', item_name = ''Plan'',
      column_values = [\<lparr>cv_id = ''status'', cv_text = Some [], cv_value = None,
                        display_value = None\<rparr>,
                       \<lparr>cv_id = ''due'', cv_text = None, cv_value = None,
                        display_value = None\<rparr>],
      boardId = ''b1'', boardName = ''One''\<rparr>"

definition item_of_1960 :: board_item where
  "item_of_1960 =
     \<lparr>item_id = ''2'', item_name = ''Archive'',
      column_values = [\<lparr>cv_id = ''due'', cv_text = Some ''1960-01-01'', cv_value = None,
                        display_value = None\<rparr>],
      boardId = ''b1'', boardName = ''One''\<rparr>"

text \<open>
  An entry of the filter object is a filter on a status column: its key is the id of
  a displayed column of type \<open>status\<close> and some labels are selected. An item with a
  given status text (\<open>None\<close> is \<open>null\<close>).
\<close>

definition status_filter_on :: "column_meta list \<Rightarrow> string \<Rightarrow> string list \<Rightarrow> bool" where
  "status_filter_on columns columnId selectedValues =
     (columnId \<noteq> ''current_user_filter'' \<and> selectedValues \<noteq> []
      \<and> (case find (\<lambda>col. cm_id col = columnId) columns of
             Some columnMeta \<Rightarrow> cm_type columnMeta = ''status''
           | None \<Rightarrow> False))"

definition item_with_status :: "string option \<Rightarrow> board_item" where
  "item_with_status t =
     \<lparr>item_id = ''3'', item_name = ''Review'',
      column_values = [\<lparr>cv_id = ''status'', cv_text = t, cv_value = None,
                        display_value = None\<rparr>],
      boardId = ''b1'', boardName = ''One''\<rparr>"

text \<open>
  An item has no date text in a column: no value for the column, or a value whose text
  is \<open>null\<close> or empty.
\<close>

definition no_date_text :: "string \<Rightarrow> board_item \<Rightarrow> bool" where
  "no_date_text columnId it =
     (case find (\<lambda>cv. cv_id cv = columnId) (column_values it) of
        None \<Rightarrow> True
      | Some cv \<Rightarrow> cv_text cv = None \<or> cv_text cv = Some [])"

text \<open>
  A date parser that knows one date: \<open>new Date("1960-01-01").getTime()\<close> is
  3653 days before the epoch.
\<close>

definition parse_1960 :: date_parse where
  "parse_1960 t = (if t = ''1960-01-01'' then Some (- 315619200000) else None)"

text \<open>A \<open>JSON.parse\<close> that rejects every text.\<close>

definition no_json :: json_parse where
  "no_json t = None"

subsection \<open>Stored settings\<close>


text \<open>
  A storage in which every call succeeds, a view state, and a codec that knows the
  document of that view state and its text.
\<close>

definition working_storage :: "json \<Rightarrow> storage" where
  "working_storage v =
     \<lparr>entry = v, getItem_error = None, setItem_error = None,
      removeItem_available = True, removeItem_error = None\<rparr>"

definition sample_settings :: settings where
  "sample_settings =
     \<lparr>selectedBoardIds = JArr [JStr ''b1''], selectedColumnIds = JArr [JStr ''status''],
      isSidebarOpen = JBool True\<rparr>"

definition sample_text :: string where
  \<open>sample_text =
     ''{"selectedBoardIds":["b1"],"selectedColumnIds":["status"],"isSidebarOpen":true}''\<close>

definition sample_stringify :: json_stringify where
  "sample_stringify v = (if v = settingsToSave sample_settings then sample_text else ''null'')"

definition sample_parse :: json_parse where
  "sample_parse t = (if t = sample_text then Some (settingsToSave sample_settings) else None)"

section \<open>Properties: the retrying executors\<close>

declare retry.simps [simp del]
declare queryMonday.simps [simp del]

lemmas eval_defs = failing_operation_def rejecting_api_def error_list_api_def new_Error_def
  retry_classifier_def isConcurrencyError_def isGraphqlError_def isRateLimitStatusCode_def
  isFieldLimitExceededCode_def rate_limit_outcome_def failed_outcome_def outcome_error_def
  rateLimitError_def always_transient_def always_rate_limited_def

subsection \<open>Substrings\<close>

lemma starts_with_iff: "starts_with s p \<longleftrightarrow> (\<exists>b. s = p @ b)"
  by (induction s p rule: starts_with.induct) auto

lemma str_includes_iff: "str_includes s p \<longleftrightarrow> (\<exists>a b. s = a @ p @ b)"
proof (induction s)
  case Nil
  then show ?case by auto
next
  case (Cons c cs)
  show ?case
  proof
    assume "str_includes (c # cs) p"
    then consider "starts_with (c # cs) p" | "str_includes cs p" by auto
    then show "\<exists>a b. c # cs = a @ p @ b"
    proof cases
      case 1
      then obtain b where "c # cs = p @ b" by (auto simp: starts_with_iff)
      then have "c # cs = [] @ p @ b" by simp
      then show ?thesis by blast
    next
      case 2
      then obtain a b where "cs = a @ p @ b" using Cons.IH by auto
      then have "c # cs = (c # a) @ p @ b" by simp
      then show ?thesis by blast
    qed
  next
    assume "\<exists>a b. c # cs = a @ p @ b"
    then obtain a b where ab: "c # cs = a @ p @ b" by blast
    show "str_includes (c # cs) p"
    proof (cases a)
      case Nil
      with ab have "starts_with (c # cs) p" by (auto simp: starts_with_iff)
      then show ?thesis by simp
    next
      case (Cons x a')
      with ab have "cs = a' @ p @ b" by simp
      then have "str_includes cs p" using Cons.IH by blast
      then show ?thesis by simp
    qed
  qed
qed

lemma includes_append_sep:
  assumes p: "p \<noteq> []" "CHR '';'' \<notin> set p" "hd p \<noteq> CHR '' ''"
    and x: "\<not> str_includes x p" and r: "\<not> str_includes r p"
  shows "\<not> str_includes (x @ ''; '' @ r) p"
proof
  assume "str_includes (x @ ''; '' @ r) p"
  then obtain a b where ab: "x @ ''; '' @ r = a @ (p @ b)" by (auto simp: str_includes_iff)
  from x have nx: "\<And>u v. x \<noteq> u @ p @ v" by (auto simp: str_includes_iff)
  from r have nr: "\<And>u v. r \<noteq> u @ p @ v" by (auto simp: str_includes_iff)
  from ab obtain us where
    "(x = a @ us \<and> us @ ''; '' @ r = p @ b) \<or> (x @ us = a \<and> ''; '' @ r = us @ p @ b)"
    by (auto simp: append_eq_append_conv2)
  then show False
  proof
    assume h: "x = a @ us \<and> us @ ''; '' @ r = p @ b"
    then obtain vs where
      "(us = p @ vs \<and> vs @ ''; '' @ r = b) \<or> (us @ vs = p \<and> ''; '' @ r = vs @ b)"
      by (auto simp: append_eq_append_conv2)
    then show False
    proof
      assume "us = p @ vs \<and> vs @ ''; '' @ r = b"
      with h have "x = a @ p @ vs" by simp
      with nx show False by blast
    next
      assume k: "us @ vs = p \<and> ''; '' @ r = vs @ b"
      show False
      proof (cases vs)
        case Nil
        with k h have "x = a @ p @ []" by simp
        with nx show False by blast
      next
        case (Cons v vs')
        with k have "v = CHR '';''" by simp
        with k Cons p(2) show False by auto
      qed
    qed
  next
    assume h: "x @ us = a \<and> ''; '' @ r = us @ p @ b"
    show False
    proof (cases us)
      case Nil
      with h p(1) have "hd p = CHR '';''" by (cases p) auto
      with p(1,2) show False by (cases p) auto
    next
      case (Cons u us')
      with h have t: "'' '' @ r = us' @ p @ b" by simp
      show False
      proof (cases us')
        case Nil
        with t p(1) have "hd p = CHR '' ''" by (cases p) auto
        with p(3) show False by simp
      next
        case (Cons u' us'')
        with t have "r = us'' @ p @ b" by simp
        with nr show False by blast
      qed
    qed
  qed
qed

lemma includes_join_sep:
  assumes p: "p \<noteq> []" "CHR '';'' \<notin> set p" "hd p \<noteq> CHR '' ''"
  shows "\<not> list_ex (\<lambda>m. str_includes m p) ms \<Longrightarrow> \<not> str_includes (join ''; '' ms) p"
proof (induction ms)
  case Nil
  then show ?case using p by simp
next
  case (Cons x ms)
  show ?case
  proof (cases ms)
    case Nil
    with Cons.prems show ?thesis by simp
  next
    case (Cons y ys)
    with Cons.prems Cons.IH have "\<not> str_includes x p" "\<not> str_includes (join ''; '' ms) p"
      by auto
    from includes_append_sep[OF p this] show ?thesis using Cons by simp
  qed
qed


lemma no_marker_in_joined:
  assumes "\<not> rateLimitError errs"
  shows "\<not> str_includes (join ''; '' (map err_message errs)) ''Rate limit passed''"
proof -
  from assms have "\<not> list_ex (\<lambda>m. str_includes m ''Rate limit passed'') (map err_message errs)"
    by (auto simp: rateLimitError_def list_ex_iff)
  then show ?thesis by (intro includes_join_sep) simp_all
qed

lemma queryMonday_fatal_once:
  assumes "api w = (out, w1)" "failed_outcome out" "\<not> rate_limit_outcome out"
  shows "queryMonday api n d w = (Inl (outcome_error out), w1, [Call])"
proof (cases out)
  case (Rejected e)
  with assms show ?thesis
    by (simp add: queryMonday.simps[of api n] queryMonday_try_def outcome_error_def
                  rate_limit_outcome_def queryMonday_catch_retries_def)
next
  case (Resolved resp)
  with assms obtain errs where errs: "errors resp = Some errs" "\<not> rateLimitError errs"
    by (auto simp: failed_outcome_def rate_limit_outcome_def)
  from no_marker_in_joined[OF errs(2)] Resolved errs assms(1) show ?thesis
    by (simp add: queryMonday.simps[of api n] queryMonday_try_def outcome_error_def
                  queryMonday_catch_retries_def new_Error_def)
qed

subsection \<open>Exhausting the budget\<close>

lemma map_upt_Suc_shift:
  "map g [0..<Suc n] = g 0 # map (\<lambda>k. g (Suc k)) [0..<n]"
  by (induction n) auto

lemma always_transient_at:
  assumes "always_transient fn"
  obtains e where "fst (fn w) = Inl e" "retry_classifier e"
proof (cases "fst (fn w)")
  case (Inl e)
  moreover from assms have "case fst (fn w) of Inl e \<Rightarrow> retry_classifier e | Inr v \<Rightarrow> False"
    unfolding always_transient_def by blast
  ultimately show ?thesis using that by simp
next
  case (Inr v)
  moreover from assms have "case fst (fn w) of Inl e \<Rightarrow> retry_classifier e | Inr v \<Rightarrow> False"
    unfolding always_transient_def by blast
  ultimately show ?thesis by simp
qed

lemma retry_exhausts:
  assumes "always_transient fn"
  shows "retry fn n d f w =
           (fst (fn (world_after fn n w)), snd (fn (world_after fn n w)),
            concat (map (\<lambda>k. [Call, Wait (d * f ^ k)]) [0..<n]) @ [Call])"
proof (induction n arbitrary: d w)
  case 0
  obtain e where "fst (fn w) = Inl e"
    using assms by (rule always_transient_at)
  then show ?case by (cases "fn w") (simp add: retry.simps[of fn 0])
next
  case (Suc n)
  obtain e where e: "fst (fn w) = Inl e" "retry_classifier e"
    using assms by (rule always_transient_at)
  have "map (\<lambda>k. [Call, Wait (d * f ^ k)]) [0..<Suc n]
        = [Call, Wait d] # map (\<lambda>k. [Call, Wait (d * f * f ^ k)]) [0..<n]"
    by (simp only: map_upt_Suc_shift) (simp add: mult.assoc)
  with e Suc.IH[of "d * f" "snd (fn w)"] show ?case
    by (cases "fn w") (simp add: retry.simps[of fn "Suc n"])
qed

lemma attempts_backoff:
  "attempts (concat (map (\<lambda>k. [Call, Wait (g k)]) ks) @ [Call]) = length ks + 1"
  by (induction ks) (auto simp: attempts_def)

lemma waits_backoff:
  "waits (concat (map (\<lambda>k. [Call, Wait (g k)]) ks) @ [Call]) = map g ks"
  by (induction ks) auto

lemma always_rate_limited_try:
  assumes "rate_limit_outcome out"
  shows "queryMonday_try out (Suc n) = TryRetry
         \<or> (\<exists>e. queryMonday_try out (Suc n) = TryThrow e \<and> queryMonday_catch_retries e (Suc n))"
  using assms
  by (auto simp: rate_limit_outcome_def queryMonday_try_def queryMonday_catch_retries_def
           split: api_outcome.splits option.splits)

lemma queryMonday_try_zero:
  assumes "failed_outcome out"
  shows "queryMonday_try out 0 = TryThrow (outcome_error out)"
  using assms
  by (auto simp: failed_outcome_def queryMonday_try_def outcome_error_def
           split: api_outcome.splits option.splits)

lemma rate_limit_failed: "rate_limit_outcome out \<Longrightarrow> failed_outcome out"
  by (auto simp: rate_limit_outcome_def failed_outcome_def split: api_outcome.splits option.splits)

lemma queryMonday_exhausts:
  assumes "always_rate_limited api"
  shows "queryMonday api n d w =
           (Inl (outcome_error (fst (api (world_after api n w)))), snd (api (world_after api n w)),
            concat (map (\<lambda>k. [Call, Wait (d * 2 ^ k)]) [0..<n]) @ [Call])"
proof (induction n arbitrary: d w)
  case 0
  have "rate_limit_outcome (fst (api w))" using assms by (simp add: always_rate_limited_def)
  then have "queryMonday_try (fst (api w)) 0 = TryThrow (outcome_error (fst (api w)))"
    by (intro queryMonday_try_zero rate_limit_failed)
  then show ?case
    by (cases "api w") (simp add: queryMonday.simps[of api 0] queryMonday_catch_retries_def)
next
  case (Suc n)
  have rl: "rate_limit_outcome (fst (api w))" using assms by (simp add: always_rate_limited_def)
  have m: "map (\<lambda>k. [Call, Wait (d * 2 ^ k)]) [0..<Suc n]
        = [Call, Wait d] # map (\<lambda>k. [Call, Wait (d * 2 * 2 ^ k)]) [0..<n]"
    by (simp only: map_upt_Suc_shift) (simp add: mult.assoc)
  from always_rate_limited_try[OF rl, of n] show ?case
  proof
    assume "queryMonday_try (fst (api w)) (Suc n) = TryRetry"
    with m Suc.IH[of "d * 2" "snd (api w)"] show ?thesis
      by (cases "api w") (simp add: queryMonday.simps[of api "Suc n"])
  next
    assume "\<exists>e. queryMonday_try (fst (api w)) (Suc n) = TryThrow e \<and> queryMonday_catch_retries e (Suc n)"
    with m Suc.IH[of "d * 2" "snd (api w)"] show ?thesis
      by (cases "api w") (auto simp add: queryMonday.simps[of api "Suc n"])
  qed
qed

lemma retry_fatal_once:
  assumes "fn w = (Inl e, w1)" "\<not> retry_classifier e"
  shows "retry fn n d f w = (Inl e, w1, [Call])"
  using assms by (simp add: retry.simps[of fn n])

text \<open>
  C1 (as amended). An operation whose every attempt fails with an error that the
  executor retries is invoked exactly \<open>retries + 1\<close> times (the log has that many
  calls, and the world is the one after that many invocations), with waits of
  \<open>delay\<close>, \<open>2 * delay\<close>, \<open>4 * delay\<close>, ... between consecutive attempts, and the
  executor then rejects with the error of the last attempt as that attempt produced
  it: nothing is added to the error. This holds for \<open>retry\<close> (with its default
  factor 2) and for \<open>queryMonday\<close> on rate-limit failures. An operation whose first
  attempt fails with an error that the executor does not retry is invoked exactly once
  and its error is rethrown.
\<close>

theorem retry_budget_exhaustion:
  "(always_transient fn \<longrightarrow>
      fst (retry fn retries delay 2 w) = fst (fn (world_after fn retries w))
      \<and> fst (snd (retry fn retries delay 2 w)) = snd (fn (world_after fn retries w))
      \<and> (\<exists>e. fst (retry fn retries delay 2 w) = Inl e)
      \<and> attempts (snd (snd (retry fn retries delay 2 w))) = retries + 1
      \<and> waits (snd (snd (retry fn retries delay 2 w))) = map (\<lambda>k. delay * 2 ^ k) [0..<retries])
   \<and> (always_rate_limited api \<longrightarrow>
      fst (queryMonday api budget pause v)
        = Inl (outcome_error (fst (api (world_after api budget v))))
      \<and> fst (snd (queryMonday api budget pause v)) = snd (api (world_after api budget v))
      \<and> attempts (snd (snd (queryMonday api budget pause v))) = budget + 1
      \<and> waits (snd (snd (queryMonday api budget pause v))) = map (\<lambda>k. pause * 2 ^ k) [0..<budget])
   \<and> (fn' w' = (Inl e', w1) \<and> \<not> retry_classifier e' \<longrightarrow>
      retry fn' retries' delay' factor w' = (Inl e', w1, [Call]))
   \<and> (api' v' = (out, v1) \<and> failed_outcome out \<and> \<not> rate_limit_outcome out \<longrightarrow>
      queryMonday api' budget' pause' v' = (Inl (outcome_error out), v1, [Call]))"
proof (intro conjI impI)
  assume t: "always_transient fn"
  obtain e where e: "fst (fn (world_after fn retries w)) = Inl e"
    using t by (rule always_transient_at)
  note r = retry_exhausts[OF t, of retries delay 2 w]
  show "fst (retry fn retries delay 2 w) = fst (fn (world_after fn retries w))"
    by (simp add: r)
  show "fst (snd (retry fn retries delay 2 w)) = snd (fn (world_after fn retries w))"
    by (simp add: r)
  show "\<exists>e. fst (retry fn retries delay 2 w) = Inl e"
    using e by (simp add: r)
  show "attempts (snd (snd (retry fn retries delay 2 w))) = retries + 1"
    by (simp add: r attempts_backoff)
  show "waits (snd (snd (retry fn retries delay 2 w))) = map (\<lambda>k. delay * 2 ^ k) [0..<retries]"
    by (simp add: r waits_backoff)
next
  assume t: "always_rate_limited api"
  note q = queryMonday_exhausts[OF t, of budget pause v]
  show "fst (queryMonday api budget pause v)
        = Inl (outcome_error (fst (api (world_after api budget v))))"
    by (simp add: q)
  show "fst (snd (queryMonday api budget pause v)) = snd (api (world_after api budget v))"
    by (simp add: q)
  show "attempts (snd (snd (queryMonday api budget pause v))) = budget + 1"
    by (simp add: q attempts_backoff)
  show "waits (snd (snd (queryMonday api budget pause v))) = map (\<lambda>k. pause * 2 ^ k) [0..<budget]"
    by (simp add: q waits_backoff)
next
  assume "fn' w' = (Inl e', w1) \<and> \<not> retry_classifier e'"
  then show "retry fn' retries' delay' factor w' = (Inl e', w1, [Call])"
    by (simp add: retry_fatal_once)
next
  assume "api' v' = (out, v1) \<and> failed_outcome out \<and> \<not> rate_limit_outcome out"
  then show "queryMonday api' budget' pause' v' = (Inl (outcome_error out), v1, [Call])"
    by (simp add: queryMonday_fatal_once)
qed

theorem retry_budget_exhaustion_witness:
  "always_transient (failing_operation (new_Error ''Concurrency limit exceeded''))
   \<and> fst (retry (failing_operation (new_Error ''Concurrency limit exceeded'')) 2 2000 2 0)
       = Inl (new_Error ''Concurrency limit exceeded'')
   \<and> fst (snd (retry (failing_operation (new_Error ''Concurrency limit exceeded'')) 2 2000 2 0)) = 3
   \<and> attempts (snd (snd (retry (failing_operation (new_Error ''Concurrency limit exceeded'')) 2 2000 2 0))) = 3
   \<and> waits (snd (snd (retry (failing_operation (new_Error ''Concurrency limit exceeded'')) 2 2000 2 0)))
       = [2000, 4000]
   \<and> always_rate_limited (rejecting_api (new_Error ''Rate limit passed''))
   \<and> fst (queryMonday (rejecting_api (new_Error ''Rate limit passed'')) 1 500 0)
       = Inl (new_Error ''Rate limit passed'')
   \<and> fst (snd (queryMonday (rejecting_api (new_Error ''Rate limit passed'')) 1 500 0)) = 2
   \<and> attempts (snd (snd (queryMonday (rejecting_api (new_Error ''Rate limit passed'')) 1 500 0))) = 2
   \<and> waits (snd (snd (queryMonday (rejecting_api (new_Error ''Rate limit passed'')) 1 500 0))) = [500]
   \<and> \<not> retry_classifier (new_Error ''Permission denied'')
   \<and> retry (failing_operation (new_Error ''Permission denied'')) 5 2000 2 0
       = (Inl (new_Error ''Permission denied''), 1, [Call])
   \<and> failed_outcome (Resolved \<lparr>errors = Some [\<lparr>err_message = ''Parse error'', ext_code = None\<rparr>], data = ()\<rparr>)
   \<and> \<not> rate_limit_outcome (Resolved \<lparr>errors = Some [\<lparr>err_message = ''Parse error'', ext_code = None\<rparr>], data = ()\<rparr>)
   \<and> queryMonday (error_list_api [\<lparr>err_message = ''Parse error'', ext_code = None\<rparr>]) 3 500 0
       = (Inl (new_Error ''Parse error''), 1, [Call])"
  using retry_budget_exhaustion
          [of "failing_operation (new_Error ''Concurrency limit exceeded'')" 2 2000 0
              "rejecting_api (new_Error ''Rate limit passed'')" 1 500 0
              "failing_operation (new_Error ''Permission denied'')" 0
              "new_Error ''Permission denied''" 1 5 2000 2
              "error_list_api [\<lparr>err_message = ''Parse error'', ext_code = None\<rparr>]" 0
              "Resolved \<lparr>errors = Some [\<lparr>err_message = ''Parse error'', ext_code = None\<rparr>], data = ()\<rparr>"
              1 3 500]
  by (simp add: eval_defs numeral_2_eq_2)


text \<open>
  C1 as stated fails: the rejection after the budget is spent is not tagged. With one
  retry, an API that always answers with the error list \<open>Rate limit exceeded\<close> is
  called twice, and \<open>queryMonday\<close> rejects with a plain \<open>Error\<close> that carries the
  joined messages.
\<close>

theorem exhausted_error_untagged_counterexample:
  "queryMonday (error_list_api [\<lparr>err_message = ''Rate limit exceeded'', ext_code = None\<rparr>]) 1 500 0
     = (Inl (new_Error ''Rate limit exceeded''), 2, [Call, Wait 500, Call])
   \<and> \<not> tagged_ExhaustedRetries (new_Error ''Rate limit exceeded'')"
  by (simp add: queryMonday.simps eval_defs queryMonday_try_def queryMonday_catch_retries_def
                tagged_ExhaustedRetries_def)

subsection \<open>What is retried\<close>

lemma retry_retried_iff:
  assumes "fn w = (Inl e, w1)"
  shows "(retry fn retries delay factor w \<noteq> (Inl e, w1, [Call]))
         = (0 < retries \<and> retry_classifier e)"
  using assms by (simp add: retry.simps[of fn retries] split: prod.splits)

lemma queryMonday_rejected_retried:
  assumes "api v = (Rejected e, v1)"
  shows "(queryMonday api retries delay v \<noteq> (Inl e, v1, [Call]))
         = (0 < retries \<and> str_includes (message e) ''Rate limit passed'')"
  using assms
  by (auto simp add: queryMonday.simps[of api retries] queryMonday_try_def
                queryMonday_catch_retries_def split: prod.splits)

lemma queryMonday_error_list_retried:
  assumes "api v = (Resolved resp, v1)" "errors resp = Some errs"
  shows "(queryMonday api retries delay v
            \<noteq> (Inl (new_Error (join ''; '' (map err_message errs))), v1, [Call]))
         = (0 < retries \<and> rateLimitError errs)"
proof (cases "rateLimitError errs")
  case True
  with assms show ?thesis
    by (auto simp add: queryMonday.simps[of api retries] queryMonday_try_def
                queryMonday_catch_retries_def split: prod.splits)
next
  case False
  from no_marker_in_joined[OF False] False assms show ?thesis
    by (auto simp add: queryMonday.simps[of api retries] queryMonday_try_def
                queryMonday_catch_retries_def new_Error_def split: prod.splits)
qed

text \<open>
  What \<open>retry\<close> tests, on the fields of the error: it repeats a failed attempt
  exactly when budget remains and the message contains \<open>Concurrency limit exceeded\<close>
  or \<open>Graphql validation errors\<close>, or the HTTP status is 429, or the first upstream
  error has the extension code \<open>FIELD_LIMIT_EXCEEDED\<close>.
\<close>

lemma retry_tests_on_fields:
  assumes "fn w = (Inl e, w1)"
  shows "(retry fn retries delay factor w \<noteq> (Inl e, w1, [Call]))
         = (0 < retries
            \<and> (str_includes (message e) ''Concurrency limit exceeded''
               \<or> str_includes (message e) ''Graphql validation errors''
               \<or> (\<exists>r. response e = Some r \<and> status r = Some 429)
               \<or> (\<exists>r g gs. response e = Some r \<and> resp_errors r = g # gs
                     \<and> ext_code g = Some ''FIELD_LIMIT_EXCEEDED'')))"
proof -
  have "retry_classifier e
        = (str_includes (message e) ''Concurrency limit exceeded''
           \<or> str_includes (message e) ''Graphql validation errors''
           \<or> (\<exists>r. response e = Some r \<and> status r = Some 429)
           \<or> (\<exists>r g gs. response e = Some r \<and> resp_errors r = g # gs
                 \<and> ext_code g = Some ''FIELD_LIMIT_EXCEEDED''))"
    by (auto simp: retry_classifier_def isConcurrencyError_def isGraphqlError_def
                   isRateLimitStatusCode_def isFieldLimitExceededCode_def
             split: option.splits list.splits)
  with retry_retried_iff[of fn w e w1 retries delay factor] assms show ?thesis by simp
qed

lemma retry_examples:
  "attempts (snd (snd (retry (failing_operation
      \<lparr>name = ''Error'', message = ''Request failed'',
       response = Some \<lparr>status = Some 429, resp_errors = []\<rparr>\<rparr>) 5 2000 2 0))) = 6"
  "attempts (snd (snd (retry (failing_operation field_limit_error) 5 2000 2 0))) = 6"
  "attempts (snd (snd (retry (failing_operation (new_Error ''Concurrency limit exceeded'')) 5 2000 2 0))) = 6"
  "attempts (snd (snd (retry (failing_operation (new_Error ''Graphql validation errors'')) 5 2000 2 0))) = 6"
  "attempts (snd (snd (retry (failing_operation (new_Error ''Permission denied'')) 5 2000 2 0))) = 1"
  by (simp_all add: retry.simps eval_defs field_limit_error_def attempts_def)

text \<open>
  C4. The claim holds of the code except on one path. A response with an error list is
  repeated when one of its messages contains \<open>Rate limit passed\<close> or
  \<open>Rate limit exceeded\<close>, but the \<open>catch\<close> block of \<open>queryMonday\<close> looks for
  \<open>Rate limit passed\<close> only, and \<open>retry\<close> has no test for either marker. So when
  \<open>monday.api\<close> rejects with the message \<open>Rate limit exceeded\<close>, an error that
  indicates rate limiting, the call is made once and the error is rethrown, by
  \<open>queryMonday\<close> and by the whole executor; the same message in an error list is
  retried until the budget is spent (four calls).
\<close>

theorem thrown_rate_limit_exceeded_not_retried:
  "indicates_rate_limiting (new_Error ''Rate limit exceeded'')
   \<and> queryMonday (rejecting_api (new_Error ''Rate limit exceeded'')) 3 500 0
       = (Inl (new_Error ''Rate limit exceeded''), 1, [Call])
   \<and> executeQuery (rejecting_api (new_Error ''Rate limit exceeded'')) 0
       = (Inl (new_Error ''Rate limit exceeded''), 1)
   \<and> queryMonday (error_list_api [\<lparr>err_message = ''Rate limit exceeded'', ext_code = None\<rparr>]) 3 500 0
       = (Inl (new_Error ''Rate limit exceeded''), 4,
          [Call, Wait 500, Call, Wait 1000, Call, Wait 2000, Call])"
  by (simp add: indicates_rate_limiting_def executeQuery_def retry.simps queryMonday.simps
                queryMonday_try_def queryMonday_catch_retries_def eval_defs)

section \<open>Properties: fetchBoardData\<close>

lemma fetch_items_fails:
  "item_fetch_fails api columnIds boardIds w \<Longrightarrow>
   \<exists>e w1. fetch_items api newAll columnIds boardIds fetched w = (Inl e, w1)"
proof (induction boardIds arbitrary: fetched w)
  case Nil
  then show ?case by simp
next
  case (Cons b rest)
  then have ne: "columnIds \<noteq> []" by simp
  show ?case
  proof (cases "executeQuery (api (GET_BOARD_ITEMS_WITH_COLUMNS_QUERY b columnIds)) w")
    case (Pair res w1)
    show ?thesis
    proof (cases res)
      case (Inl e)
      with Pair ne show ?thesis by simp
    next
      case (Inr d)
      with Pair Cons.prems have "item_fetch_fails api columnIds rest w1" by simp
      from Cons.IH[OF this] Pair Inr ne show ?thesis by simp
    qed
  qed
qed

lemma fetch_items_succeeds:
  "\<not> item_fetch_fails api columnIds boardIds w \<Longrightarrow>
   \<exists>items w1. fetch_items api newAll columnIds boardIds fetched w = (Inr items, w1)"
proof (induction boardIds arbitrary: fetched w)
  case Nil
  then show ?case by simp
next
  case (Cons b rest)
  show ?case
  proof (cases "columnIds = []")
    case True
    then have "\<not> item_fetch_fails api columnIds rest w" by (cases rest) simp_all
    from Cons.IH[OF this] True show ?thesis by simp
  next
    case False
    show ?thesis
    proof (cases "executeQuery (api (GET_BOARD_ITEMS_WITH_COLUMNS_QUERY b columnIds)) w")
      case (Pair res w1)
      show ?thesis
      proof (cases res)
        case (Inl e)
        with Pair False Cons.prems show ?thesis by simp
      next
        case (Inr d)
        with Pair False Cons.prems have "\<not> item_fetch_fails api columnIds rest w1" by simp
        from Cons.IH[OF this] Pair Inr False show ?thesis by simp
      qed
    qed
  qed
qed

text \<open>
  C2. In a refresh over a non-empty selection of boards whose columns query has
  succeeded, if the item fetch of a selected board fails in this run, the refresh
  fails: \<open>boardItems\<close> is what it was before the refresh (the items of the boards
  fetched before the failure are dropped with the local \<open>fetchedItems\<close>), an error
  message is set, and the refresh is over. When no item fetch fails in the run, no
  error message is set.
\<close>

theorem failed_item_fetch_keeps_items:
  "(executeQuery (api GET_BOARD_COLUMNS_QUERY) w = (Inr columnsData, w1)
    \<and> item_fetch_fails api columnIds boardIds w1 \<longrightarrow>
     boardItems (fst (fetchBoardData api boardIds columnIds st w)) = boardItems st
     \<and> (columnsError (fst (fetchBoardData api boardIds columnIds st w)) \<noteq> None
        \<or> itemsError (fst (fetchBoardData api boardIds columnIds st w)) \<noteq> None)
     \<and> \<not> isPolling (fst (fetchBoardData api boardIds columnIds st w)))
   \<and> (executeQuery (api' GET_BOARD_COLUMNS_QUERY) w' = (Inr columnsData', w1')
    \<and> boardIds' \<noteq> [] \<and> \<not> item_fetch_fails api' columnIds' boardIds' w1' \<longrightarrow>
     columnsError (fst (fetchBoardData api' boardIds' columnIds' st' w')) = None
     \<and> itemsError (fst (fetchBoardData api' boardIds' columnIds' st' w')) = None)"
proof (intro conjI impI)
  assume h: "executeQuery (api GET_BOARD_COLUMNS_QUERY) w = (Inr columnsData, w1)
    \<and> item_fetch_fails api columnIds boardIds w1"
  then have ne: "boardIds \<noteq> []" by (cases boardIds) simp_all
  obtain e w2 where
    f: "fetch_items api (case columnsData of Some boards \<Rightarrow> collect_boards boardIds boards
                        | None \<Rightarrow> Map.empty) columnIds boardIds [] w1 = (Inl e, w2)"
    using fetch_items_fails[of api columnIds boardIds w1] h by blast
  from h ne f
  show "boardItems (fst (fetchBoardData api boardIds columnIds st w)) = boardItems st"
    by (simp add: fetchBoardData_def Let_def fetchBoardData_catch_def fetchBoardData_started_def)
  from h ne f
  show "columnsError (fst (fetchBoardData api boardIds columnIds st w)) \<noteq> None
        \<or> itemsError (fst (fetchBoardData api boardIds columnIds st w)) \<noteq> None"
    by (simp add: fetchBoardData_def Let_def fetchBoardData_catch_def fetchBoardData_started_def)
  from h ne f
  show "\<not> isPolling (fst (fetchBoardData api boardIds columnIds st w))"
    by (simp add: fetchBoardData_def Let_def fetchBoardData_catch_def fetchBoardData_started_def)
next
  assume h: "executeQuery (api' GET_BOARD_COLUMNS_QUERY) w' = (Inr columnsData', w1')
    \<and> boardIds' \<noteq> [] \<and> \<not> item_fetch_fails api' columnIds' boardIds' w1'"
  obtain items w2 where
    f: "fetch_items api' (case columnsData' of Some boards \<Rightarrow> collect_boards boardIds' boards
                        | None \<Rightarrow> Map.empty) columnIds' boardIds' [] w1' = (Inr items, w2)"
    using fetch_items_succeeds[of api' columnIds' boardIds' w1'] h by blast
  from h f
  show "columnsError (fst (fetchBoardData api' boardIds' columnIds' st' w')) = None"
    by (simp add: fetchBoardData_def Let_def fetchBoardData_started_def)
  from h f
  show "itemsError (fst (fetchBoardData api' boardIds' columnIds' st' w')) = None"
    by (simp add: fetchBoardData_def Let_def fetchBoardData_started_def)
qed

lemmas api_eval = outage_api_def executeQuery_def retry.simps queryMonday.simps
  queryMonday_try_def queryMonday_catch_retries_def eval_defs

text \<open>
  The witness is the refresh of \<open>b1\<close> and \<open>b2\<close> with the column \<open>c1\<close> during the
  outage: the columns query and the items of \<open>b1\<close> arrive, the six attempts for
  \<open>b2\<close> fail, and the item shown before stays. The same refresh of \<open>b1\<close> alone
  ends without an error.
\<close>

theorem failed_item_fetch_keeps_items_witness:
  "executeQuery (outage_api GET_BOARD_COLUMNS_QUERY) 0 = (Inr two_board_columns, 1)
   \<and> item_fetch_fails outage_api [''c1''] [''b1'', ''b2''] 1
   \<and> snd (fetchBoardData outage_api [''b1'', ''b2''] [''c1''] idle_state 0) = 8
   \<and> boardItems (fst (fetchBoardData outage_api [''b1'', ''b2''] [''c1''] idle_state 0))
       = [shown_item]
   \<and> itemsError (fst (fetchBoardData outage_api [''b1'', ''b2''] [''c1''] idle_state 0))
       = Some ''Error loading items: Concurrency limit exceeded.''
   \<and> \<not> isPolling (fst (fetchBoardData outage_api [''b1'', ''b2''] [''c1''] idle_state 0))
   \<and> [''b1''] \<noteq> [] \<and> \<not> item_fetch_fails outage_api [''c1''] [''b1''] 1
   \<and> itemsError (fst (fetchBoardData outage_api [''b1''] [''c1''] idle_state 0)) = None"
  using failed_item_fetch_keeps_items
          [of outage_api 0 two_board_columns 1 "[''c1'']" "[''b1'', ''b2'']" idle_state
              outage_api 0 two_board_columns 1 "[''b1'']" "[''c1'']" idle_state]
  by (simp add: idle_state_def fetchBoardData_def fetchBoardData_catch_def Let_def
                fetchBoardData_started_def two_board_columns_def api_eval)

section \<open>Properties: the merged column list\<close>

lemma find_append_first:
  "find P (xs @ ys) = (case find P xs of Some x \<Rightarrow> Some x | None \<Rightarrow> find P ys)"
  by (induction xs) auto

lemma columnsMap_add_keys:
  "map fst (columnsMap_add m col) = (if col_id col \<in> set (map fst m) then map fst m else map fst m @ [col_id col])"
  by (simp add: columnsMap_add_def)

lemma find_columnsMap_add:
  assumes "\<forall>kv \<in> set m. col_id (snd kv) = fst kv"
  shows "find (\<lambda>c. col_id c = cid) (map snd (columnsMap_add m col))
         = find (\<lambda>c. col_id c = cid) (map snd m @ [col])"
proof (cases "col_id col \<in> set (map fst m)")
  case False
  then show ?thesis by (simp add: columnsMap_add_def)
next
  case True
  show ?thesis
  proof (cases "cid = col_id col")
    case False
    with True show ?thesis by (simp add: columnsMap_add_def find_append_first split: option.splits)
  next
    case c: True
    from True obtain kv where kv: "kv \<in> set m" "fst kv = col_id col" by auto
    with assms have "col_id (snd kv) = cid" using c by auto
    with kv have "\<exists>x \<in> set (map snd m). col_id x = cid" by force
    then have "find (\<lambda>c. col_id c = cid) (map snd m) \<noteq> None"
      by (simp add: find_None_iff)
    with True show ?thesis by (auto simp add: columnsMap_add_def find_append_first split: option.splits)
  qed
qed

lemma columnsMap_add_inv:
  assumes "\<forall>kv \<in> set m. col_id (snd kv) = fst kv"
  shows "\<forall>kv \<in> set (columnsMap_add m col). col_id (snd kv) = fst kv"
  using assms by (auto simp: columnsMap_add_def)

lemma foldl_columnsMap_add:
  assumes "\<forall>kv \<in> set m. col_id (snd kv) = fst kv"
  shows "(\<forall>kv \<in> set (foldl columnsMap_add m cols). col_id (snd kv) = fst kv)
         \<and> find (\<lambda>c. col_id c = cid) (map snd (foldl columnsMap_add m cols))
           = find (\<lambda>c. col_id c = cid) (map snd m @ cols)"
  using assms
proof (induction cols arbitrary: m)
  case Nil
  then show ?case by simp
next
  case (Cons col cols)
  from Cons.IH[OF columnsMap_add_inv[OF Cons.prems], of ] find_columnsMap_add[OF Cons.prems, of cid col]
  show ?case by (auto simp add: find_append_first split: option.splits)
qed

lemma foldl_boards:
  assumes "\<forall>kv \<in> set m. col_id (snd kv) = fst kv"
  shows "find (\<lambda>c. col_id c = cid)
           (map snd (foldl (\<lambda>columnsMap bid.
                 case boardsData bid of
                   Some b \<Rightarrow> foldl columnsMap_add columnsMap (be_columns b)
                 | None \<Rightarrow> columnsMap) m boardIds))
         = find (\<lambda>c. col_id c = cid) (map snd m @ columns_in_order boardIds boardsData)"
  using assms
proof (induction boardIds arbitrary: m)
  case Nil
  then show ?case by (simp add: columns_in_order_def)
next
  case (Cons bid rest)
  show ?case
  proof (cases "boardsData bid")
    case None
    with Cons show ?thesis by (simp add: columns_in_order_def)
  next
    case (Some b)
    from foldl_columnsMap_add[OF Cons.prems, of "be_columns b" cid]
    have inv: "\<forall>kv \<in> set (foldl columnsMap_add m (be_columns b)). col_id (snd kv) = fst kv"
      and f: "find (\<lambda>c. col_id c = cid) (map snd (foldl columnsMap_add m (be_columns b)))
           = find (\<lambda>c. col_id c = cid) (map snd m @ be_columns b)" by auto
    from Cons.IH[OF inv] Some f show ?thesis
      by (auto simp add: columns_in_order_def find_append_first split: option.splits)
  qed
qed

text \<open>
  C3 (as amended). In the merged column list, the column found under an id is the
  first column with that id in the order in which the selected boards and their
  columns are visited: first seen wins.
\<close>

theorem first_seen_column_wins:
  "find (\<lambda>c. col_id c = cid) (allAvailableColumnsForSelectedBoards boardIds boardsData)
   = find (\<lambda>c. col_id c = cid) (columns_in_order boardIds boardsData)"
  using foldl_boards[of "[]" cid boardsData boardIds]
  by (simp add: allAvailableColumnsForSelectedBoards_def)

text \<open>
  C3 as stated fails: with two selected boards that both have a column \<open>status\<close>,
  the merged list holds the column of the first board, not the one seen last.
\<close>

theorem last_seen_column_counterexample:
  "allAvailableColumnsForSelectedBoards [''b1'', ''b2''] two_boards = [status_of_first]
   \<and> last_seen_column (columns_in_order [''b1'', ''b2''] two_boards) ''status''
       = Some status_of_second
   \<and> status_of_second \<noteq> status_of_first"
  by (simp add: allAvailableColumnsForSelectedBoards_def columns_in_order_def two_boards_def
                columnsMap_add_def last_seen_column_def status_of_first_def status_of_second_def)

section \<open>Properties: the polling timer\<close>

text \<open>
  C5 (as amended). A tick of the polling timer calls \<open>fetchBoardData\<close> only when
  the settings are loaded and no load after a change of the selection is in flight: it
  is skipped while \<open>isAppLoading\<close>, \<open>isLoadingColumns\<close> or \<open>isLoadingItems\<close> is
  set, as they are during \<open>loadContentData\<close>. A refresh that a tick started sets only
  \<open>isPolling\<close>, which the tick does not read: it makes no difference to the next
  tick.
\<close>

theorem polling_skips_foreground_load:
  "(isAppLoading st \<or> isLoadingColumns st \<or> isLoadingItems st \<longrightarrow>
      \<not> polling_tick st boardIds columnIds)
   \<and> \<not> polling_tick (fetchBoardData_started (loadContentData_started st')) boardIds columnIds
   \<and> polling_tick (fetchBoardData_started st') boardIds columnIds
       = polling_tick st' boardIds columnIds"
  by (simp add: polling_tick_def fetchBoardData_started_def loadContentData_started_def)

theorem polling_skips_foreground_load_witness:
  "isLoadingColumns (loadContentData_started idle_state)
   \<and> \<not> polling_tick (loadContentData_started idle_state) [''b1''] [''c1'']
   \<and> polling_tick idle_state [''b1''] [''c1'']"
  using polling_skips_foreground_load
          [of "loadContentData_started idle_state" "[''b1'']" "[''c1'']" idle_state]
  by (simp add: loadContentData_started_def idle_state_def polling_tick_def)

text \<open>
  C5 as stated fails: while a refresh started by a tick is in flight
  (\<open>isPolling\<close> is set), the next tick starts another one.
\<close>

theorem overlapping_refresh_counterexample:
  "polling_tick idle_state [''b1''] [''c1'']
   \<and> isPolling (fetchBoardData_started idle_state)
   \<and> polling_tick (fetchBoardData_started idle_state) [''b1''] [''c1'']"
  by (simp add: polling_tick_def fetchBoardData_started_def idle_state_def)

section \<open>Properties: filters\<close>

subsection \<open>Trimming\<close>

declare strip_prefixes.simps [simp del]

lemmas trim_eval = trim_def trimStart_def trimEnd_def strip_prefixes.simps white_spaces_def

lemma strip_prefixes_decomp:
  "\<exists>parts. set parts \<subseteq> set pats \<and> s = concat parts @ strip_prefixes pats s"
proof (induction pats s rule: strip_prefixes.induct)
  case (1 pats s)
  show ?case
  proof (cases "find (\<lambda>p. p \<noteq> [] \<and> starts_with s p) pats")
    case None
    then have "strip_prefixes pats s = s" by (simp add: strip_prefixes.simps[of pats s])
    then have "set [] \<subseteq> set pats \<and> s = concat [] @ strip_prefixes pats s" by simp
    then show ?thesis by blast
  next
    case (Some p)
    then have p: "p \<in> set pats" "starts_with s p" by (auto simp: find_Some_iff)
    from Some have eq: "strip_prefixes pats s = strip_prefixes pats (drop (length p) s)"
      by (simp add: strip_prefixes.simps[of pats s])
    from "1.IH"[OF Some] obtain parts where
      parts: "set parts \<subseteq> set pats"
        "drop (length p) s = concat parts @ strip_prefixes pats (drop (length p) s)" by blast
    from p(2) obtain b where "s = p @ b" by (auto simp: starts_with_iff)
    then have "s = p @ drop (length p) s" by simp
    with parts(2) eq have "s = concat (p # parts) @ strip_prefixes pats s" by simp
    moreover from p(1) parts(1) have "set (p # parts) \<subseteq> set pats" by simp
    ultimately show ?thesis by blast
  qed
qed

lemma strip_prefixes_core:
  "p \<in> set pats \<Longrightarrow> p \<noteq> [] \<Longrightarrow> \<not> starts_with (strip_prefixes pats s) p"
proof (induction pats s rule: strip_prefixes.induct)
  case (1 pats s)
  show ?case
  proof (cases "find (\<lambda>p. p \<noteq> [] \<and> starts_with s p) pats")
    case None
    then have "strip_prefixes pats s = s" by (simp add: strip_prefixes.simps[of pats s])
    with None "1.prems" show ?thesis by (auto simp: find_None_iff)
  next
    case (Some q)
    then have "strip_prefixes pats s = strip_prefixes pats (drop (length q) s)"
      by (simp add: strip_prefixes.simps[of pats s])
    with "1.IH"[OF Some "1.prems"] show ?thesis by simp
  qed
qed

lemma white_spaces_nonempty: "ws \<in> set white_spaces \<Longrightarrow> ws \<noteq> []"
  by (auto simp: white_spaces_def)

lemma trimEnd_decomp:
  "\<exists>parts. set parts \<subseteq> set white_spaces \<and> u = trimEnd u @ concat parts"
proof -
  obtain pb where pb: "set pb \<subseteq> set (map rev white_spaces)"
    "rev u = concat pb @ strip_prefixes (map rev white_spaces) (rev u)"
    using strip_prefixes_decomp[of "map rev white_spaces" "rev u"] by blast
  from pb(2) have "rev (rev u) = rev (concat pb @ strip_prefixes (map rev white_spaces) (rev u))"
    by simp
  then have "u = trimEnd u @ concat (map rev (rev pb))"
    by (simp add: trimEnd_def rev_concat)
  moreover from pb(1) have "set (map rev (rev pb)) \<subseteq> set white_spaces" by auto
  ultimately show ?thesis by blast
qed

lemma trim_decomp: "\<exists>a b. white_run a \<and> white_run b \<and> s = a @ trim s @ b"
proof -
  obtain pa where pa: "set pa \<subseteq> set white_spaces" "s = concat pa @ trimStart s"
    using strip_prefixes_decomp[of white_spaces s] by (auto simp: trimStart_def)
  obtain pb where pb: "set pb \<subseteq> set white_spaces" "trimStart s = trim s @ concat pb"
    using trimEnd_decomp[of "trimStart s"] by (auto simp: trim_def)
  from pa(1) have "white_run (concat pa)" unfolding white_run_def by blast
  moreover from pb(1) have "white_run (concat pb)" unfolding white_run_def by blast
  moreover from pa(2) pb(2) have "s = concat pa @ trim s @ concat pb" by simp
  ultimately show ?thesis by blast
qed

lemma trim_trimmed: "trimmed (trim s)"
proof -
  have "\<not> starts_with (trim s) ws \<and> \<not> starts_with (rev (trim s)) (rev ws)"
    if ws: "ws \<in> set white_spaces" for ws
  proof
    have ne: "ws \<noteq> []" using ws by (rule white_spaces_nonempty)
    from ws ne have "\<not> starts_with (strip_prefixes (map rev white_spaces) (rev (trimStart s))) (rev ws)"
      by (intro strip_prefixes_core) auto
    then show "\<not> starts_with (rev (trim s)) (rev ws)" by (simp add: trim_def trimEnd_def)
    show "\<not> starts_with (trim s) ws"
    proof
      assume "starts_with (trim s) ws"
      then obtain b where b: "trim s = ws @ b" by (auto simp: starts_with_iff)
      obtain pb where "trimStart s = trim s @ concat pb"
        using trimEnd_decomp[of "trimStart s"] by (auto simp: trim_def)
      with b have "starts_with (trimStart s) ws" by (simp add: starts_with_iff)
      moreover have "\<not> starts_with (trimStart s) ws"
        unfolding trimStart_def using ws ne by (rule strip_prefixes_core)
      ultimately show False by simp
    qed
  qed
  then show ?thesis by (simp add: trimmed_def list_all_iff)
qed

subsection \<open>The status filter\<close>

lemma status_filter_reads_label:
  assumes "status_filter_on columns columnId selectedValues"
  shows "column_filter_passes parse columns it (columnId, selectedValues)
         = (normalizedCurrentStatusText (find (\<lambda>cv. cv_id cv = columnId) (column_values it))
            \<in> set selectedValues)"
  using assms
  by (auto simp add: status_filter_on_def column_filter_passes_def Let_def split: option.splits)

lemma trim_of_null: "trim ''null'' = ''null''" and trim_of_empty: "trim [] = []"
  by (simp_all add: trim_eval)

text \<open>
  C6. For a filter entry on a status column with selected labels, an item passes
  exactly when its normalized status label is among the selected labels. The label is
  read from the text of the item's value for the column: the trimmed text, replaced
  by \<open>No status\<close> when it is empty, \<open>-\<close>, \<open>undefined\<close> or \<open>null\<close>; an item with
  the text \<open>null\<close> or without a value for the column has the label \<open>No status\<close>.
  Trimming takes away white space only, and leaves none at either end.
\<close>

theorem status_filter_membership:
  "(status_filter_on columns columnId selectedValues
    \<and> find (\<lambda>cv. cv_id cv = columnId) (column_values it) = Some cv \<and> cv_text cv = Some t \<longrightarrow>
      column_filter_passes parse columns it (columnId, selectedValues)
      = ((if trim t = [] \<or> trim t = ''-'' \<or> trim t = ''undefined'' \<or> trim t = ''null''
          then ''No status'' else trim t) \<in> set selectedValues))
   \<and> (status_filter_on columns columnId selectedValues
    \<and> find (\<lambda>cv. cv_id cv = columnId) (column_values it') = Some cv' \<and> cv_text cv' = None \<longrightarrow>
      column_filter_passes parse columns it' (columnId, selectedValues)
      = (''No status'' \<in> set selectedValues))
   \<and> (status_filter_on columns columnId selectedValues
    \<and> find (\<lambda>cv. cv_id cv = columnId) (column_values it'') = None \<longrightarrow>
      column_filter_passes parse columns it'' (columnId, selectedValues)
      = (''No status'' \<in> set selectedValues))
   \<and> (\<exists>a b. white_run a \<and> white_run b \<and> s = a @ trim s @ b)
   \<and> trimmed (trim s)"
proof (intro conjI impI)
  assume "status_filter_on columns columnId selectedValues
    \<and> find (\<lambda>cv. cv_id cv = columnId) (column_values it) = Some cv \<and> cv_text cv = Some t"
  then show "column_filter_passes parse columns it (columnId, selectedValues)
      = ((if trim t = [] \<or> trim t = ''-'' \<or> trim t = ''undefined'' \<or> trim t = ''null''
          then ''No status'' else trim t) \<in> set selectedValues)"
    by (auto simp add: status_filter_reads_label normalizedCurrentStatusText_def
                       currentStatusText_def Let_def)
next
  assume "status_filter_on columns columnId selectedValues
    \<and> find (\<lambda>cv. cv_id cv = columnId) (column_values it') = Some cv' \<and> cv_text cv' = None"
  then show "column_filter_passes parse columns it' (columnId, selectedValues)
      = (''No status'' \<in> set selectedValues)"
    by (simp add: status_filter_reads_label normalizedCurrentStatusText_def
                  currentStatusText_def Let_def trim_of_null)
next
  assume "status_filter_on columns columnId selectedValues
    \<and> find (\<lambda>cv. cv_id cv = columnId) (column_values it'') = None"
  then show "column_filter_passes parse columns it'' (columnId, selectedValues)
      = (''No status'' \<in> set selectedValues)"
    by (simp add: status_filter_reads_label normalizedCurrentStatusText_def
                  currentStatusText_def Let_def trim_of_empty)
next
  show "\<exists>a b. white_run a \<and> white_run b \<and> s = a @ trim s @ b"
    by (rule trim_decomp)
next
  show "trimmed (trim s)"
    by (rule trim_trimmed)
qed

lemmas filter_eval = status_and_date_def status_and_date_columns_def columnsForTable_def
  virtualColumns_def status_of_first_def List.map_filter_def item_without_status_def
  item_with_status_def item_of_1960_def status_filter_on_def
  normalizedCurrentStatusText_def currentStatusText_def trim_eval

text \<open>
  The witness: under the filter \<open>Done\<close>, an item whose text is \<open>Done\<close> between
  spaces passes, as does one whose text is \<open>Done\<close> and a no-break space; under the
  filter \<open>No status\<close>, the items with the text \<open>null\<close>, without a value, with the
  text \<open>-\<close> and with the empty text pass, and the last fails the filter \<open>Done\<close>.
\<close>

theorem status_filter_membership_witness:
  "status_filter_on status_and_date ''status'' [''Done'']
   \<and> find (\<lambda>cv. cv_id cv = ''status'') (column_values (item_with_status (Some ''  Done '')))
       = Some \<lparr>cv_id = ''status'', cv_text = Some ''  Done '', cv_value = None, display_value = None\<rparr>
   \<and> column_filter_passes no_json status_and_date (item_with_status (Some ''  Done ''))
         (''status'', [''Done''])
   \<and> column_filter_passes no_json status_and_date
         (item_with_status (Some (''Done'' @ [CHR 0xC2, CHR 0xA0]))) (''status'', [''Done''])
   \<and> \<not> column_filter_passes no_json status_and_date (item_with_status (Some ''Stuck''))
         (''status'', [''Done''])
   \<and> status_filter_on status_and_date ''status'' [''No status'']
   \<and> find (\<lambda>cv. cv_id cv = ''status'') (column_values (item_with_status None))
       = Some \<lparr>cv_id = ''status'', cv_text = None, cv_value = None, display_value = None\<rparr>
   \<and> column_filter_passes no_json status_and_date (item_with_status None)
         (''status'', [''No status''])
   \<and> find (\<lambda>cv. cv_id cv = ''status'') (column_values item_of_1960) = None
   \<and> column_filter_passes no_json status_and_date item_of_1960 (''status'', [''No status''])
   \<and> column_filter_passes no_json status_and_date (item_with_status (Some ''-''))
         (''status'', [''No status''])
   \<and> column_filter_passes no_json status_and_date item_without_status
         (''status'', [''No status''])
   \<and> \<not> column_filter_passes no_json status_and_date item_without_status (''status'', [''Done''])"
  using status_filter_membership
          [of status_and_date "''status''" "[''Done'']" "item_with_status (Some ''  Done '')"
              "\<lparr>cv_id = ''status'', cv_text = Some ''  Done '', cv_value = None, display_value = None\<rparr>"
              "''  Done ''" no_json "item_with_status None"
              "\<lparr>cv_id = ''status'', cv_text = None, cv_value = None, display_value = None\<rparr>"
              item_of_1960]
        status_filter_membership
          [of status_and_date "''status''" "[''No status'']" "item_with_status (Some ''-'')"
              "\<lparr>cv_id = ''status'', cv_text = Some ''-'', cv_value = None, display_value = None\<rparr>"
              "''-''" no_json "item_with_status None"
              "\<lparr>cv_id = ''status'', cv_text = None, cv_value = None, display_value = None\<rparr>"
              item_of_1960]
  by (simp add: filter_eval column_filter_passes_def)

section \<open>Properties: sorting by a date column\<close>

lemma no_date_text_value:
  "no_date_text c it \<Longrightarrow> date_value parse_date (find (\<lambda>cv. cv_id cv = c) (column_values it)) = Some 0"
  by (auto simp: no_date_text_def date_value_def split: option.splits)

text \<open>
  C7 (as amended). On a date column the comparator compares time values. An item
  without date text stands at the epoch (time value 0): against an item whose text
  parses to the time value \<open>tb\<close> the ascending comparison is \<open>- tb\<close>, so the item
  without a date comes before every item dated after 1970-01-01 and after every item
  dated before it.
\<close>

theorem absent_date_is_epoch:
  "no_date_text columnId a
   \<and> find (\<lambda>cv. cv_id cv = columnId) (column_values b) = Some cvb
   \<and> cv_text cvb = Some t \<and> t \<noteq> [] \<and> parse_date t = Some tb \<longrightarrow>
     date_comparator parse_date columnId ''asc'' a b = Some (- tb)
     \<and> date_comparator parse_date columnId ''asc'' b a = Some tb
     \<and> date_comparator parse_date columnId ''desc'' a b = Some tb"
proof
  assume h: "no_date_text columnId a
   \<and> find (\<lambda>cv. cv_id cv = columnId) (column_values b) = Some cvb
   \<and> cv_text cvb = Some t \<and> t \<noteq> [] \<and> parse_date t = Some tb"
  then have a: "date_value parse_date (find (\<lambda>cv. cv_id cv = columnId) (column_values a)) = Some 0"
    by (simp add: no_date_text_value)
  from h have b: "date_value parse_date (find (\<lambda>cv. cv_id cv = columnId) (column_values b)) = Some tb"
    by (simp add: date_value_def)
  show "date_comparator parse_date columnId ''asc'' a b = Some (- tb)
     \<and> date_comparator parse_date columnId ''asc'' b a = Some tb
     \<and> date_comparator parse_date columnId ''desc'' a b = Some tb"
    by (simp add: date_comparator_def Let_def a b)
qed

lemmas date_eval = item_without_status_def item_of_1960_def no_date_text_def parse_1960_def
  date_comparator_def date_value_def

theorem absent_date_is_epoch_witness:
  "no_date_text ''due'' item_without_status
   \<and> find (\<lambda>cv. cv_id cv = ''due'') (column_values item_of_1960)
       = Some \<lparr>cv_id = ''due'', cv_text = Some ''1960-01-01'', cv_value = None, display_value = None\<rparr>
   \<and> parse_1960 ''1960-01-01'' = Some (- 315619200000)
   \<and> date_comparator parse_1960 ''due'' ''asc'' item_without_status item_of_1960
       = Some 315619200000"
  using absent_date_is_epoch
          [of "''due''" item_without_status item_of_1960
              "\<lparr>cv_id = ''due'', cv_text = Some ''1960-01-01'', cv_value = None, display_value = None\<rparr>"
              "''1960-01-01''" parse_1960 "- 315619200000"]
  by (simp add: item_without_status_def item_of_1960_def no_date_text_def parse_1960_def)

text \<open>
  C7 as stated fails: an item without a date is not the lowest. Against an item dated
  1960-01-01 the ascending comparison is positive, so the undated item sorts after it.
\<close>

theorem absent_date_not_lowest_counterexample:
  "no_date_text ''due'' item_without_status
   \<and> date_value parse_1960 (find (\<lambda>cv. cv_id cv = ''due'') (column_values item_of_1960))
       = Some (- 315619200000)
   \<and> date_comparator parse_1960 ''due'' ''asc'' item_without_status item_of_1960
       = Some 315619200000"
  by (simp add: date_eval)


text \<open>
  For a text that does not parse, the time value is \<open>NaN\<close> and so is every comparison
  with it.
\<close>

lemma unparseable_date_is_nan:
  assumes "find (\<lambda>cv. cv_id cv = columnId) (column_values a) = Some cva"
    and "cv_text cva = Some t" "t \<noteq> []" "parse_date t = None"
  shows "date_comparator parse_date columnId sortOrder a b = None"
    and "date_comparator parse_date columnId sortOrder b a = None"
  using assms by (simp_all add: date_comparator_def date_value_def Let_def split: option.splits)

section \<open>Properties: stored settings\<close>

lemma loadSettings_parsed_saved:
  assumes "truthy (selectedBoardIds s)" "truthy (selectedColumnIds s)"
  shows "loadSettings_parsed (settingsToSave s) s0 = Some s"
  using assms by (cases s; cases s0) (simp add: loadSettings_parsed_def settingsToSave_def)

lemma load_after_save:
  assumes "\<not> isAppLoading st" "setItem_error sto = None" "getItem_error sto = None"
    and "truthy (selectedBoardIds s)" "truthy (selectedColumnIds s)"
    and "stringify (settingsToSave s) \<noteq> []"
    and "parse (stringify (settingsToSave s)) = Some (settingsToSave s)"
  shows "fst (loadSettings parse (s0, st', fst (saveSettingsAutomatically stringify s st sto))) = s"
  using assms
  by (simp add: saveSettingsAutomatically_def setItem_def loadSettings_def loadSettings_try_def
                getItem_def loadSettings_parsed_saved Let_def)

lemma load_non_json:
  assumes "entry sto = JStr str" "parse str = None"
  shows "fst (loadSettings parse (s0, st, sto)) = s0"
  using assms
  by (simp add: loadSettings_def loadSettings_try_def getItem_def clear_corrupted_def
                removeItem_def Let_def split: option.splits sum.splits)

text \<open>
  C8. When the app has finished loading, the storage accepts the write and returns
  it, and \<open>JSON.parse\<close> gives back the document that \<open>JSON.stringify\<close> wrote (a
  non-empty text), then loading after a save of a view state yields that view state,
  whatever the settings were before the load; the selections of the app are arrays,
  which are truthy. And when the stored value is a string that \<open>JSON.parse\<close>
  rejects, loading leaves the settings as they were (the defaults at start-up);
  \<open>loadSettings\<close> catches every error, so it always returns.
\<close>

theorem settings_round_trip:
  "(\<not> isAppLoading st \<and> setItem_error sto = None \<and> getItem_error sto = None
    \<and> truthy (selectedBoardIds s) \<and> truthy (selectedColumnIds s)
    \<and> stringify (settingsToSave s) \<noteq> []
    \<and> parse (stringify (settingsToSave s)) = Some (settingsToSave s) \<longrightarrow>
      fst (loadSettings parse (s0, st', fst (saveSettingsAutomatically stringify s st sto))) = s)
   \<and> (entry sto' = JStr str \<and> parse' str = None \<longrightarrow>
      fst (loadSettings parse' (s0', st'', sto')) = s0')"
  by (simp add: load_after_save load_non_json)

lemmas settings_eval = working_storage_def sample_settings_def sample_text_def
  sample_stringify_def sample_parse_def settingsToSave_def idle_state_def default_settings_def

theorem settings_round_trip_witness:
  "\<not> isAppLoading idle_state
   \<and> setItem_error (working_storage JNull) = None \<and> getItem_error (working_storage JNull) = None
   \<and> truthy (selectedBoardIds sample_settings) \<and> truthy (selectedColumnIds sample_settings)
   \<and> sample_stringify (settingsToSave sample_settings) \<noteq> []
   \<and> sample_parse (sample_stringify (settingsToSave sample_settings))
       = Some (settingsToSave sample_settings)
   \<and> fst (loadSettings sample_parse
            (default_settings, idle_state,
             fst (saveSettingsAutomatically sample_stringify sample_settings idle_state
                    (working_storage JNull))))
       = sample_settings
   \<and> entry (working_storage (JStr ''not json'')) = JStr ''not json''
   \<and> sample_parse ''not json'' = None
   \<and> fst (loadSettings sample_parse (default_settings, idle_state, working_storage (JStr ''not json'')))
       = default_settings"
  using settings_round_trip
          [of idle_state "working_storage JNull" sample_settings sample_stringify sample_parse
              default_settings idle_state "working_storage (JStr ''not json'')" "''not json''"
              sample_parse default_settings idle_state]
  by (simp add: settings_eval)









section \<open>Properties: empty filters\<close>

lemma empty_selection_passes:
  "column_filter_passes parse columns it (columnId, [])"
  by (simp add: column_filter_passes_def)

lemma map_of_cleared:
  "map_of (handleClearFilter c fs) k = (if k = c then None else map_of fs k)"
  by (induction fs) (auto simp: handleClearFilter_def)

lemma list_all_cleared:
  assumes "\<And>vs. (c, vs) \<in> set fs \<Longrightarrow> vs = []"
  shows "list_all (column_filter_passes parse columns it) (handleClearFilter c fs)
         = list_all (column_filter_passes parse columns it) fs"
  using assms
proof (induction fs)
  case Nil
  then show ?case by (simp add: handleClearFilter_def)
next
  case (Cons kv fs)
  then have ih: "list_all (column_filter_passes parse columns it) (handleClearFilter c fs)
         = list_all (column_filter_passes parse columns it) fs"
    by (simp add: handleClearFilter_def)
  show ?case
  proof (cases "fst kv = c")
    case True
    with Cons.prems[of "snd kv"] have "kv = (c, [])" by (cases kv) auto
    with ih show ?thesis by (simp add: handleClearFilter_def empty_selection_passes)
  next
    case False
    with ih show ?thesis by (simp add: handleClearFilter_def)
  qed
qed

lemma current_user_cleared:
  assumes "map_of fs c = Some []"
  shows "isFilterByCurrentUserActive (handleClearFilter c fs) = isFilterByCurrentUserActive fs"
  using assms by (auto simp: isFilterByCurrentUserActive_def map_of_cleared)

lemma map_of_set_key: "map_of (set_key k v fs) k' = (if k' = k then Some v else map_of fs k')"
  by (induction fs) auto

lemma set_key_keys: "set (map fst (set_key k v fs)) = insert k (set (map fst fs))"
  by (induction k v fs rule: set_key.induct) (simp_all add: insert_commute)

lemma keys_set_key: "distinct (map fst fs) \<Longrightarrow> distinct (map fst (set_key k v fs))"
proof (induction fs)
  case Nil
  then show ?case by simp
next
  case (Cons kv fs)
  obtain a b where kv: "kv = (a, b)" by (cases kv)
  show ?case
  proof (cases "a = k")
    case True
    with Cons.prems kv show ?thesis by simp
  next
    case False
    from Cons.prems kv have "a \<notin> set (map fst fs)" by simp
    with False have "a \<notin> set (map fst (set_key k v fs))" by (simp only: set_key_keys) simp
    with Cons kv False show ?thesis by simp
  qed
qed

lemma uncheck_entry:
  "map_of (handleFilterChange c v False fs) c
   = Some (filter (\<lambda>x. x \<noteq> v) (case map_of fs c of Some vs \<Rightarrow> vs | None \<Rightarrow> []))"
  by (simp add: handleFilterChange_def map_of_set_key)

lemma uncheck_all_entry:
  "map_of fs c = Some cur \<Longrightarrow>
   map_of (foldl (\<lambda>f v. handleFilterChange c v False f) fs vs) c
   = Some (filter (\<lambda>x. x \<notin> set vs) cur)"
proof (induction vs arbitrary: fs cur)
  case Nil
  then show ?case by simp
next
  case (Cons v vs)
  have "map_of (handleFilterChange c v False fs) c = Some (filter (\<lambda>x. x \<noteq> v) cur)"
    using Cons.prems by (simp add: uncheck_entry)
  from Cons.IH[OF this] show ?case by (simp add: conj_commute)
qed

lemma uncheck_keeps_keys:
  "distinct (map fst fs) \<Longrightarrow> distinct (map fst (foldl (\<lambda>f v. handleFilterChange c v False f) fs vs))"
  by (induction vs arbitrary: fs) (auto simp: handleFilterChange_def Let_def keys_set_key)

text \<open>
  C10. An entry of the filter object whose array of selected values is empty lets
  every item pass, so the filtered items are the same as after removing the entry
  (\<open>handleClearFilter\<close>); and unchecking every value of an entry, one at a time,
  leaves the entry with the empty array.
\<close>

theorem empty_filter_is_no_filter:
  "(distinct (map fst activeFilters) \<and> map_of activeFilters columnId = Some [] \<longrightarrow>
      finalFilteredItems parse columnIds allBoardColumns activeFilters currentUserId items
      = finalFilteredItems parse columnIds allBoardColumns
          (handleClearFilter columnId activeFilters) currentUserId items)
   \<and> column_filter_passes parse columns it (columnId, [])
   \<and> (distinct (map fst prevFilters) \<and> map_of prevFilters columnId = Some vs \<longrightarrow>
        distinct (map fst (foldl (\<lambda>f v. handleFilterChange columnId v False f) prevFilters vs))
        \<and> map_of (foldl (\<lambda>f v. handleFilterChange columnId v False f) prevFilters vs) columnId
            = Some [])"
proof (intro conjI impI)
  assume h: "distinct (map fst activeFilters) \<and> map_of activeFilters columnId = Some []"
  then have e: "\<And>vs. (columnId, vs) \<in> set activeFilters \<Longrightarrow> vs = []"
    by (auto simp: map_of_eq_Some_iff)
  from h have u: "isFilterByCurrentUserActive (handleClearFilter columnId activeFilters)
                  = isFilterByCurrentUserActive activeFilters"
    by (simp add: current_user_cleared)
  show "finalFilteredItems parse columnIds allBoardColumns activeFilters currentUserId items
      = finalFilteredItems parse columnIds allBoardColumns
          (handleClearFilter columnId activeFilters) currentUserId items"
    by (simp add: finalFilteredItems_def Let_def u list_all_cleared[OF e])
next
  show "column_filter_passes parse columns it (columnId, [])"
    by (rule empty_selection_passes)
next
  assume "distinct (map fst prevFilters) \<and> map_of prevFilters columnId = Some vs"
  then show "distinct (map fst (foldl (\<lambda>f v. handleFilterChange columnId v False f) prevFilters vs))"
    by (simp add: uncheck_keeps_keys)
next
  assume "distinct (map fst prevFilters) \<and> map_of prevFilters columnId = Some vs"
  then show "map_of (foldl (\<lambda>f v. handleFilterChange columnId v False f) prevFilters vs) columnId
            = Some []"
    by (simp add: uncheck_all_entry)
qed


theorem empty_filter_is_no_filter_witness:
  "distinct (map fst [(''status'', [])]) \<and> map_of [(''status'', [])] ''status'' = Some []
   \<and> finalFilteredItems no_json [''status'', ''due''] status_and_date_columns
         [(''status'', [])] JNull [item_without_status]
       = [item_without_status]
   \<and> finalFilteredItems no_json [''status'', ''due''] status_and_date_columns
         (handleClearFilter ''status'' [(''status'', [])]) JNull [item_without_status]
       = [item_without_status]
   \<and> finalFilteredItems no_json [''status'', ''due''] status_and_date_columns
         [(''status'', [''Done''])] JNull [item_without_status]
       = []
   \<and> distinct (map fst [(''status'', [''Done''])])
   \<and> map_of [(''status'', [''Done''])] ''status'' = Some [''Done'']
   \<and> foldl (\<lambda>f v. handleFilterChange ''status'' v False f) [(''status'', [''Done''])] [''Done'']
       = [(''status'', [])]"
  using empty_filter_is_no_filter
          [of "[(''status'', [])]" "''status''" no_json "[''status'', ''due'']"
              status_and_date_columns JNull "[item_without_status]"
              status_and_date item_without_status
              "[(''status'', [''Done''])]" "[''Done'']"]
  by (simp add: finalFilteredItems_def isFilterByCurrentUserActive_def handleClearFilter_def
                handleFilterChange_def column_filter_passes_def filter_eval Let_def)


end
